theory Spec2Isabelle
  imports Main "HOL-Library.Multiset"
begin

section \<open>The Leads page: filtering and ordering of the displayed leads\<close>

text \<open>
  A lead as the Leads page receives it from \<^verbatim>\<open>GET /leads\<close>. Only the fields read by the
  filter and the sort are named; the rest of the row stays in the record's extension.
  A field that is \<^verbatim>\<open>null\<close> or missing in the JSON is \<open>None\<close>.
\<close>

record lead =
  lead_id :: nat
  lead_priority :: "string option"
  lead_score :: "int option"
  last_reply_intent :: "string option"

text \<open>
  The value of \<^verbatim>\<open>priorityRank[k]\<close> for the object literal
  \<^verbatim>\<open>{ HIGH: 4, MEDIUM: 3, LOW: 2, IGNORE: 1 }\<close>. A property read on a plain object
  also finds what the object inherits from \<^verbatim>\<open>Object.prototype\<close>: for those keys the
  read yields a function or an object, not \<^verbatim>\<open>undefined\<close>.
\<close>

datatype js_rank =
    Num int
  | Inherited string

definition object_prototype_keys :: "string list" where
  "object_prototype_keys =
     [''constructor'', ''hasOwnProperty'', ''isPrototypeOf'', ''propertyIsEnumerable'',
      ''toLocaleString'', ''toString'', ''valueOf'', ''__proto__'',
      ''__defineGetter__'', ''__defineSetter__'', ''__lookupGetter__'', ''__lookupSetter__'']"

definition priorityRank :: "string \<Rightarrow> js_rank option" where
  "priorityRank k =
     (if k = ''HIGH'' then Some (Num 4)
      else if k = ''MEDIUM'' then Some (Num 3)
      else if k = ''LOW'' then Some (Num 2)
      else if k = ''IGNORE'' then Some (Num 1)
      else if k \<in> set object_prototype_keys then Some (Inherited k)
      else None)"

text \<open>
  \<^verbatim>\<open>priorityRank[a.lead_priority] || 0\<close>. A missing priority is the key
  \<^verbatim>\<open>"null"\<close> or \<^verbatim>\<open>"undefined"\<close>, which the object does not have. A function or an
  object is truthy, so \<^verbatim>\<open>|| 0\<close> keeps it.
\<close>

definition rank_of :: "string option \<Rightarrow> js_rank" where
  "rank_of p =
     (case p of
        None \<Rightarrow> Num 0
      | Some k \<Rightarrow>
          (case priorityRank k of
             None \<Rightarrow> Num 0
           | Some (Num n) \<Rightarrow> (if n = 0 then Num 0 else Num n)
           | Some (Inherited f) \<Rightarrow> Inherited f))"

text \<open>\<^verbatim>\<open>lead.lead_score || 0\<close>\<close>

definition score_of :: "int option \<Rightarrow> int" where
  "score_of s = (case s of None \<Rightarrow> 0 | Some n \<Rightarrow> n)"

text \<open>
  \<^verbatim>\<open>bPriority - aPriority\<close>: a number when both are numbers; a function or an object
  converts to \<^verbatim>\<open>NaN\<close>, written \<open>None\<close>.
\<close>

definition js_minus :: "js_rank \<Rightarrow> js_rank \<Rightarrow> int option" where
  "js_minus x y =
     (case (x, y) of
        (Num m, Num n) \<Rightarrow> Some (m - n)
      | _ \<Rightarrow> None)"

text \<open>The comparison function handed to \<^verbatim>\<open>sort\<close>; \<open>None\<close> is \<^verbatim>\<open>NaN\<close>.\<close>

definition compare_leads :: "'a lead_scheme \<Rightarrow> 'a lead_scheme \<Rightarrow> int option" where
  "compare_leads a b =
     (let aPriority = rank_of (lead_priority a);
          bPriority = rank_of (lead_priority b)
      in if aPriority \<noteq> bPriority then js_minus bPriority aPriority
         else Some (score_of (lead_score b) - score_of (lead_score a)))"

text \<open>
  \<^verbatim>\<open>Array.prototype.sort\<close> with a comparison function: the language requires a stable
  sort, and reads a \<^verbatim>\<open>NaN\<close> returned by the comparison as \<open>+0\<close>. It is modelled as
  stable insertion: an element goes in front of the first one it does not have to follow.
  The language fixes the result only when the comparison function is consistent on the
  elements (\<open>consistent_on\<close> below); there \<open>js_sort\<close> is that result. For any other
  comparison function the order is left to the engine, and \<open>js_sort\<close> gives the engine's
  order only where every order the engine may choose is the same, as on two elements that
  compare equal.
\<close>

definition sort_order :: "int option \<Rightarrow> int" where
  "sort_order v = (case v of None \<Rightarrow> 0 | Some n \<Rightarrow> n)"

fun insert_by :: "('a \<Rightarrow> 'a \<Rightarrow> int option) \<Rightarrow> 'a \<Rightarrow> 'a list \<Rightarrow> 'a list" where
  "insert_by c x [] = [x]"
| "insert_by c x (y # ys) =
     (if sort_order (c x y) \<le> 0 then x # y # ys else y # insert_by c x ys)"

definition js_sort :: "('a \<Rightarrow> 'a \<Rightarrow> int option) \<Rightarrow> 'a list \<Rightarrow> 'a list" where
  "js_sort c xs = foldr (insert_by c) xs []"

text \<open>
  The conditions the language puts on a comparison function for the elements of an array:
  an element equals itself, \<open>a\<close> is before \<open>b\<close> exactly when \<open>b\<close> is after \<open>a\<close>, and
  equal, before and after are each transitive.
\<close>

definition consistent_on :: "('a \<Rightarrow> 'a \<Rightarrow> int option) \<Rightarrow> 'a list \<Rightarrow> bool" where
  "consistent_on c xs =
     list_all (\<lambda>a.
       sort_order (c a a) = 0 \<and>
       list_all (\<lambda>b.
         (sort_order (c a b) < 0) = (0 < sort_order (c b a)) \<and>
         list_all (\<lambda>d.
           (sort_order (c a b) = 0 \<and> sort_order (c b d) = 0 \<longrightarrow> sort_order (c a d) = 0) \<and>
           (sort_order (c a b) < 0 \<and> sort_order (c b d) < 0 \<longrightarrow> sort_order (c a d) < 0) \<and>
           (0 < sort_order (c a b) \<and> 0 < sort_order (c b d) \<longrightarrow> 0 < sort_order (c a d))) xs) xs) xs"

text \<open>The predicate of \<^verbatim>\<open>leads.filter(...)\<close>, with the two filter selections.\<close>

definition passes_filters :: "string \<Rightarrow> string \<Rightarrow> 'a lead_scheme \<Rightarrow> bool" where
  "passes_filters priorityFilter intentFilter l =
     (if priorityFilter \<noteq> ''ALL'' \<and> lead_priority l \<noteq> Some priorityFilter then False
      else if intentFilter \<noteq> ''ALL'' \<and> last_reply_intent l \<noteq> Some intentFilter then False
      else True)"

definition filteredLeads :: "'a lead_scheme list \<Rightarrow> string \<Rightarrow> string \<Rightarrow> 'a lead_scheme list" where
  "filteredLeads leads priorityFilter intentFilter =
     js_sort compare_leads (filter (passes_filters priorityFilter intentFilter) leads)"

text \<open>
  The order of display as the specification words it, written on the fields of the leads
  and with none of the functions above: the level of a priority (HIGH above MEDIUM above
  LOW above IGNORE, any other or a missing priority below them) and the score, a missing
  score counting as 0. A lead may stand before another when its level is higher, or the
  levels are equal and its score is not lower.
\<close>

definition stated_level :: "string option \<Rightarrow> int" where
  "stated_level p =
     (if p = Some ''HIGH'' then 4
      else if p = Some ''MEDIUM'' then 3
      else if p = Some ''LOW'' then 2
      else if p = Some ''IGNORE'' then 1
      else 0)"

definition stated_score :: "int option \<Rightarrow> int" where
  "stated_score s = (case s of None \<Rightarrow> 0 | Some n \<Rightarrow> n)"

definition displayed_before :: "'a lead_scheme \<Rightarrow> 'a lead_scheme \<Rightarrow> bool" where
  "displayed_before a b =
     (stated_level (lead_priority b) < stated_level (lead_priority a) \<or>
      (stated_level (lead_priority a) = stated_level (lead_priority b) \<and>
       stated_score (lead_score b) \<le> stated_score (lead_score a)))"

text \<open>
  A priority that is missing, or a string that is not the name of something a plain object
  inherits: the priorities of the data model are all of this kind.
\<close>

definition plain_priority :: "'a lead_scheme \<Rightarrow> bool" where
  "plain_priority l =
     (case lead_priority l of None \<Rightarrow> True | Some k \<Rightarrow> k \<notin> set object_prototype_keys)"

definition mk_lead :: "nat \<Rightarrow> string option \<Rightarrow> int option \<Rightarrow> lead" where
  "mk_lead i p s = \<lparr> lead_id = i, lead_priority = p, lead_score = s, last_reply_intent = None \<rparr>"

definition example_leads :: "lead list" where
  "example_leads =
     [mk_lead 1 (Some ''LOW'') (Some 10), mk_lead 2 (Some ''HIGH'') (Some 90),
      mk_lead 3 (Some ''MEDIUM'') (Some 50), mk_lead 4 (Some ''HIGH'') (Some 70)]"

text \<open>
  Leads that arrive with the lower score first within a level, with equal scores, with a
  missing score and with a missing priority.
\<close>

definition tied_leads :: "lead list" where
  "tied_leads =
     [mk_lead 1 (Some ''HIGH'') (Some 70), mk_lead 2 None (Some 99),
      mk_lead 3 (Some ''MEDIUM'') None, mk_lead 4 (Some ''HIGH'') (Some 90),
      mk_lead 5 (Some ''MEDIUM'') (Some 20), mk_lead 6 (Some ''HIGH'') (Some 70),
      mk_lead 7 (Some ''IGNORE'') (Some 100)]"


section \<open>The API client\<close>

text \<open>
  What \<^verbatim>\<open>fetch\<close> gives back: the promise rejects (no connection), or a response
  arrives with its \<^verbatim>\<open>ok\<close> flag and a body. \<^verbatim>\<open>response.json()\<close> rejects on a body
  that is not JSON; on a JSON body the client reads the property \<^verbatim>\<open>detail\<close> of the
  parsed value (absent: \<open>None\<close>) or returns the whole parsed value. A rejection carries
  the message of its error.

  The parsed value of a response that is not ok can also be \<^verbatim>\<open>null\<close>, of which no
  property can be read: \<^verbatim>\<open>error.detail\<close> then raises a \<^verbatim>\<open>TypeError\<close>. That response
  is \<open>NullNotOk\<close>, with the message of the \<^verbatim>\<open>TypeError\<close>; in \<open>Response False (Parsed d v)\<close>
  the parsed value is not \<^verbatim>\<open>null\<close>.
\<close>

datatype js_value =
    JString string
  | JOther bool string  \<comment> \<open>any other value: whether it is truthy, and its string conversion\<close>

datatype 'r body =
    NotJson string
  | Parsed "js_value option" 'r

datatype 'r fetch_result =
    Rejected string
  | Response bool "'r body"
  | NullNotOk string

datatype client_error =
    Error string
  | SyntaxError string
  | NetworkError string
  | NullTypeError string

record attachment =
  file_name :: string
  storage_ref :: string

record send_payload =
  edited_subject :: string
  edited_body :: string
  payload_attachments :: "attachment list option"

record lead_form =
  form_name :: string
  form_email :: string
  form_company :: string

record email_form =
  email_lead_id :: nat
  email_subject :: string
  email_body :: string

datatype api_request =
    PostLeads lead_form
  | GetLeads
  | PostEmailsSend email_form
  | GetEmailsOutbound
  | PostSyncReplies
  | GetInboundReplies
  | PostGenerateNextAction nat bool
  | PostGenerateDraft nat string bool
  | PostUploadAttachment string
  | PostSendDraft nat send_payload

text \<open>\<^verbatim>\<open>new Error(error.detail || fallback)\<close>: the message of the error thrown.\<close>

definition detail_or :: "js_value option \<Rightarrow> string \<Rightarrow> string" where
  "detail_or detail fallback =
     (case detail of
        None \<Rightarrow> fallback
      | Some (JString s) \<Rightarrow> (if s = [] then fallback else s)
      | Some (JOther truthy s) \<Rightarrow> (if truthy then s else fallback))"

text \<open>
  The body shared by the mutating client functions:
  \<^verbatim>\<open>if (!response.ok) { const error = await response.json();
      throw new Error(error.detail || fallback); }  return response.json();\<close>
\<close>

definition detail_or_json :: "string \<Rightarrow> 'r fetch_result \<Rightarrow> client_error + 'r" where
  "detail_or_json fallback r =
     (case r of
        Rejected m \<Rightarrow> Inl (NetworkError m)
      | NullNotOk m \<Rightarrow> Inl (NullTypeError m)
      | Response ok b \<Rightarrow>
          (if \<not> ok then
             (case b of
                NotJson m \<Rightarrow> Inl (SyntaxError m)
              | Parsed detail v \<Rightarrow> Inl (Error (detail_or detail fallback)))
           else
             (case b of
                NotJson m \<Rightarrow> Inl (SyntaxError m)
              | Parsed detail v \<Rightarrow> Inr v)))"

text \<open>
  The body of the reading client functions:
  \<^verbatim>\<open>if (!response.ok) { throw new Error(fixed); }  return response.json();\<close>
\<close>

definition fixed_or_json :: "string \<Rightarrow> 'r fetch_result \<Rightarrow> client_error + 'r" where
  "fixed_or_json fixed r =
     (case r of
        Rejected m \<Rightarrow> Inl (NetworkError m)
      | NullNotOk m \<Rightarrow> Inl (Error fixed)
      | Response ok b \<Rightarrow>
          (if \<not> ok then Inl (Error fixed)
           else (case b of NotJson m \<Rightarrow> Inl (SyntaxError m) | Parsed detail v \<Rightarrow> Inr v)))"

text \<open>
  Each client function, with \<open>fetch\<close> standing for the network: the answer to the request
  the function sends.
\<close>

definition createLead :: "(api_request \<Rightarrow> 'r fetch_result) \<Rightarrow> lead_form \<Rightarrow> client_error + 'r" where
  "createLead fetch leadData = detail_or_json ''Failed to create lead'' (fetch (PostLeads leadData))"

definition getLeads :: "(api_request \<Rightarrow> 'r fetch_result) \<Rightarrow> client_error + 'r" where
  "getLeads fetch = fixed_or_json ''Failed to fetch leads'' (fetch GetLeads)"

definition sendEmail :: "(api_request \<Rightarrow> 'r fetch_result) \<Rightarrow> email_form \<Rightarrow> client_error + 'r" where
  "sendEmail fetch emailData = detail_or_json ''Failed to send email'' (fetch (PostEmailsSend emailData))"

definition getOutboundEmails :: "(api_request \<Rightarrow> 'r fetch_result) \<Rightarrow> client_error + 'r" where
  "getOutboundEmails fetch = fixed_or_json ''Failed to fetch outbound emails'' (fetch GetEmailsOutbound)"

definition syncReplies :: "(api_request \<Rightarrow> 'r fetch_result) \<Rightarrow> client_error + 'r" where
  "syncReplies fetch = detail_or_json ''Failed to sync replies'' (fetch PostSyncReplies)"

definition getInboundReplies :: "(api_request \<Rightarrow> 'r fetch_result) \<Rightarrow> client_error + 'r" where
  "getInboundReplies fetch = fixed_or_json ''Failed to fetch replies'' (fetch GetInboundReplies)"

definition generateNextAction ::
  "(api_request \<Rightarrow> 'r fetch_result) \<Rightarrow> nat \<Rightarrow> bool \<Rightarrow> client_error + 'r" where
  "generateNextAction fetch replyId force =
     detail_or_json ''Failed to generate next action'' (fetch (PostGenerateNextAction replyId force))"

definition generateDraft ::
  "(api_request \<Rightarrow> 'r fetch_result) \<Rightarrow> nat \<Rightarrow> string \<Rightarrow> bool \<Rightarrow> client_error + 'r" where
  "generateDraft fetch replyId tone force =
     detail_or_json ''Failed to generate draft'' (fetch (PostGenerateDraft replyId tone force))"

definition uploadAttachment :: "(api_request \<Rightarrow> 'r fetch_result) \<Rightarrow> string \<Rightarrow> client_error + 'r" where
  "uploadAttachment fetch file = detail_or_json ''Failed to upload file'' (fetch (PostUploadAttachment file))"

definition sendDraftReply ::
  "(api_request \<Rightarrow> 'r fetch_result) \<Rightarrow> nat \<Rightarrow> send_payload \<Rightarrow> client_error + 'r" where
  "sendDraftReply fetch replyId data =
     detail_or_json ''Failed to send draft'' (fetch (PostSendDraft replyId data))"

text \<open>\<^verbatim>\<open>error.message\<close> as the pages show it.\<close>

definition error_message :: "client_error \<Rightarrow> string" where
  "error_message e =
     (case e of
        Error m \<Rightarrow> m
      | SyntaxError m \<Rightarrow> m
      | NetworkError m \<Rightarrow> m
      | NullTypeError m \<Rightarrow> m)"


section \<open>The Replies inbox page\<close>

text \<open>
  A reply as \<^verbatim>\<open>GET /replies/inbound-replies\<close> delivers it, with the fields the page's
  handlers read or write. \<open>None\<close> is a field that is \<^verbatim>\<open>null\<close> or missing.
\<close>

record reply =
  reply_id :: nat
  draft_status :: "string option"
  draft_tone :: "string option"
  draft_subject :: "string option"
  draft_body :: "string option"
  reply_attachments :: "attachment list option"
  next_action_title :: "string option"
  next_action_steps :: "string list option"
  urgency :: "string option"
  followup_days :: "int option"
  suggested_tone :: "string option"

text \<open>The bodies of the two generation endpoints, as the handlers read them.\<close>

record next_action =
  action_title :: "string option"
  action_steps :: "string list option"
  action_urgency :: "string option"
  action_followup_days :: "int option"
  action_suggested_tone :: "string option"

record draft =
  subject :: "string option"
  body :: "string option"
  cached :: bool

text \<open>
  One entry of \<^verbatim>\<open>replyStates\<close>. The handlers build an entry as
  \<^verbatim>\<open>{ ...prev[replyId], field: value }\<close>, and spreading \<^verbatim>\<open>undefined\<close> gives an object
  with no fields: every field can be missing, which is \<open>None\<close>.
\<close>

record reply_state =
  generatingAction :: "bool option"
  generatingDraft :: "bool option"
  sending :: "bool option"
  selectedTone :: "string option"
  draftSubject :: "string option"
  draftBody :: "string option"
  attachments :: "attachment list option"
  uploadingFile :: "bool option"

text \<open>The component's state. Reply ids are the database's row ids.\<close>

record inbox =
  replies :: "reply list"
  loading :: bool
  expandedReply :: "nat option"
  message :: "(string \<times> string) option"
  replyStates :: "nat \<rightharpoonup> reply_state"

datatype js_exception = TypeError

definition no_fields :: reply_state where
  "no_fields =
     \<lparr> generatingAction = None, generatingDraft = None, sending = None, selectedTone = None,
       draftSubject = None, draftBody = None, attachments = None, uploadingFile = None \<rparr>"

text \<open>\<^verbatim>\<open>{ ...prev[replyId] }\<close>\<close>

definition spread :: "(nat \<rightharpoonup> reply_state) \<Rightarrow> nat \<Rightarrow> reply_state" where
  "spread prev replyId = (case prev replyId of None \<Rightarrow> no_fields | Some s \<Rightarrow> s)"

text \<open>
  \<^verbatim>\<open>setReplyStates((prev) => ({ ...prev, [replyId]: { ...prev[replyId], <fields> } }))\<close>,
  the fields written being those \<open>change\<close> sets.
\<close>

definition setReplyState :: "nat \<Rightarrow> (reply_state \<Rightarrow> reply_state) \<Rightarrow> inbox \<Rightarrow> inbox" where
  "setReplyState replyId change st =
     st\<lparr>replyStates := (replyStates st)(replyId \<mapsto> change (spread (replyStates st) replyId))\<rparr>"

text \<open>\<^verbatim>\<open>showMessage(type, text)\<close>; the timer that clears the banner is not modelled.\<close>

definition showMessage :: "string \<Rightarrow> string \<Rightarrow> inbox \<Rightarrow> inbox" where
  "showMessage type text st = st\<lparr>message := Some (type, text)\<rparr>"

text \<open>\<^verbatim>\<open>s || fallback\<close> on a string that may be missing, and \<^verbatim>\<open>!s\<close>.\<close>

definition string_or :: "string option \<Rightarrow> string \<Rightarrow> string" where
  "string_or s fallback =
     (case s of None \<Rightarrow> fallback | Some v \<Rightarrow> (if v = [] then fallback else v))"

definition falsy :: "string option \<Rightarrow> bool" where
  "falsy s = (case s of None \<Rightarrow> True | Some v \<Rightarrow> v = [])"

text \<open>The entry \<^verbatim>\<open>loadReplies\<close> builds for one reply.\<close>

definition initial_state :: "reply \<Rightarrow> reply_state" where
  "initial_state r =
     \<lparr> generatingAction = Some False,
       generatingDraft = Some False,
       sending = Some False,
       selectedTone = Some (string_or (draft_tone r) ''FRIENDLY''),
       draftSubject = Some (string_or (draft_subject r) []),
       draftBody = Some (string_or (draft_body r) []),
       attachments = Some (case reply_attachments r of None \<Rightarrow> [] | Some files \<Rightarrow> files),
       uploadingFile = Some False \<rparr>"

definition initial_states :: "reply list \<Rightarrow> (nat \<rightharpoonup> reply_state)" where
  "initial_states data = fold (\<lambda>r states. states(reply_id r \<mapsto> initial_state r)) data Map.empty"

definition loadReplies :: "(api_request \<Rightarrow> reply list fetch_result) \<Rightarrow> inbox \<Rightarrow> inbox" where
  "loadReplies fetch st =
     (case getInboundReplies fetch of
        Inr data \<Rightarrow> st\<lparr>replies := data, replyStates := initial_states data, loading := False\<rparr>
      | Inl error \<Rightarrow> (showMessage ''error'' (error_message error) st)\<lparr>loading := False\<rparr>)"

text \<open>
  Each handler returns the requests it sent, in order, with the state it leaves. A handler
  that dereferences a missing entry ends in a \<^verbatim>\<open>TypeError\<close>.
\<close>

definition handleGenerateNextAction ::
  "(api_request \<Rightarrow> next_action fetch_result) \<Rightarrow> inbox \<Rightarrow> nat \<Rightarrow> bool \<Rightarrow> api_request list \<times> inbox" where
  "handleGenerateNextAction fetch st replyId force =
     (let st1 = setReplyState replyId (\<lambda>s. s\<lparr>generatingAction := Some True\<rparr>) st;
          st2 =
            (case generateNextAction fetch replyId force of
               Inr action \<Rightarrow>
                 showMessage ''success'' ''Next action generated!''
                   (st1\<lparr>replies :=
                      map (\<lambda>r. if reply_id r = replyId
                                then r\<lparr>next_action_title := action_title action,
                                       next_action_steps := action_steps action,
                                       urgency := action_urgency action,
                                       followup_days := action_followup_days action,
                                       suggested_tone := action_suggested_tone action\<rparr>
                                else r)
                        (replies st1)\<rparr>)
             | Inl error \<Rightarrow> showMessage ''error'' (error_message error) st1)
      in ([PostGenerateNextAction replyId force],
          setReplyState replyId (\<lambda>s. s\<lparr>generatingAction := Some False\<rparr>) st2))"

text \<open>\<^verbatim>\<open>state?.selectedTone || 'FRIENDLY'\<close>\<close>

definition tone_of :: "reply_state option \<Rightarrow> string" where
  "tone_of state =
     (case state of None \<Rightarrow> ''FRIENDLY'' | Some s \<Rightarrow> string_or (selectedTone s) ''FRIENDLY'')"

definition handleGenerateDraft ::
  "(api_request \<Rightarrow> draft fetch_result) \<Rightarrow> inbox \<Rightarrow> nat \<Rightarrow> bool \<Rightarrow> api_request list \<times> inbox" where
  "handleGenerateDraft fetch st replyId force =
     (let state = replyStates st replyId;
          tone = tone_of state;
          st1 = setReplyState replyId (\<lambda>s. s\<lparr>generatingDraft := Some True\<rparr>) st
      in ([PostGenerateDraft replyId tone force],
          (case generateDraft fetch replyId tone force of
             Inr draft \<Rightarrow>
               showMessage ''success''
                 (if cached draft then ''Draft loaded from cache'' else ''Draft generated!'')
                 (setReplyState replyId
                    (\<lambda>s. s\<lparr>draftSubject := subject draft, draftBody := body draft,
                            generatingDraft := Some False\<rparr>) st1)
           | Inl error \<Rightarrow>
               setReplyState replyId (\<lambda>s. s\<lparr>generatingDraft := Some False\<rparr>)
                 (showMessage ''error'' (error_message error) st1))))"

text \<open>
  The loop \<^verbatim>\<open>for (const file of files) { uploadedFiles.push(await uploadAttachment(file)) }\<close>:
  it stops at the first upload that throws.
\<close>

fun upload_each ::
  "(api_request \<Rightarrow> attachment fetch_result) \<Rightarrow> string list \<Rightarrow> attachment list \<Rightarrow> api_request list \<Rightarrow>
     (client_error + attachment list) \<times> api_request list" where
  "upload_each fetch [] uploadedFiles sent = (Inr uploadedFiles, sent)"
| "upload_each fetch (file # files) uploadedFiles sent =
     (case uploadAttachment fetch file of
        Inl error \<Rightarrow> (Inl error, sent @ [PostUploadAttachment file])
      | Inr fileData \<Rightarrow>
          upload_each fetch files (uploadedFiles @ [fileData]) (sent @ [PostUploadAttachment file]))"

text \<open>The decimal digits of \<^verbatim>\<open>files.length\<close> in the banner.\<close>

definition digit :: "nat \<Rightarrow> char" where
  "digit d = ''0123456789'' ! d"

fun show_nat :: "nat \<Rightarrow> string" where
  "show_nat n =
     (if n < 10 then [digit n]
      else show_nat (n div 10) @ [digit (n mod 10)])"

definition handleFileSelect ::
  "(api_request \<Rightarrow> attachment fetch_result) \<Rightarrow> inbox \<Rightarrow> nat \<Rightarrow> string list \<Rightarrow>
     js_exception + api_request list \<times> inbox" where
  "handleFileSelect fetch st replyId files =
     (let st1 = setReplyState replyId (\<lambda>s. s\<lparr>uploadingFile := Some True\<rparr>) st
      in case upload_each fetch files [] [] of
           (Inr uploadedFiles, sent) \<Rightarrow>
             (case replyStates st1 replyId of
                None \<Rightarrow> Inl TypeError
              | Some prev \<Rightarrow>
                  Inr (sent,
                       showMessage ''success'' (show_nat (length files) @ '' file(s) uploaded'')
                         (setReplyState replyId
                            (\<lambda>s. s\<lparr>attachments :=
                                      Some ((case attachments prev of None \<Rightarrow> [] | Some old \<Rightarrow> old)
                                            @ uploadedFiles),
                                    uploadingFile := Some False\<rparr>) st1)))
         | (Inl error, sent) \<Rightarrow>
             Inr (sent,
                  setReplyState replyId (\<lambda>s. s\<lparr>uploadingFile := Some False\<rparr>)
                    (showMessage ''error'' (error_message error) st1)))"

text \<open>\<^verbatim>\<open>attachments.filter((_, i) => i !== index)\<close>\<close>

definition remove_index :: "nat \<Rightarrow> 'a list \<Rightarrow> 'a list" where
  "remove_index index xs = map fst (filter (\<lambda>(x, i). i \<noteq> index) (zip xs [0..<length xs]))"

definition handleRemoveAttachment ::
  "inbox \<Rightarrow> nat \<Rightarrow> nat \<Rightarrow> js_exception + api_request list \<times> inbox" where
  "handleRemoveAttachment st replyId index =
     (case replyStates st replyId of
        None \<Rightarrow> Inl TypeError
      | Some prev \<Rightarrow>
          (case attachments prev of
             None \<Rightarrow> Inl TypeError
           | Some files \<Rightarrow>
               Inr ([], setReplyState replyId
                          (\<lambda>s. s\<lparr>attachments := Some (remove_index index files)\<rparr>) st)))"

definition handleSendDraft ::
  "(api_request \<Rightarrow> 'r fetch_result) \<Rightarrow> (api_request \<Rightarrow> reply list fetch_result) \<Rightarrow> inbox \<Rightarrow> nat \<Rightarrow>
     js_exception + api_request list \<times> inbox" where
  "handleSendDraft fetch_send fetch_replies st replyId =
     (case replyStates st replyId of
        None \<Rightarrow> Inl TypeError
      | Some state \<Rightarrow>
          (if falsy (draftSubject state) \<or> falsy (draftBody state)
           then Inr ([], showMessage ''error'' ''Please generate a draft first'' st)
           else
             (let st1 = setReplyState replyId (\<lambda>s. s\<lparr>sending := Some True\<rparr>) st;
                  data = \<lparr> edited_subject = string_or (draftSubject state) [],
                           edited_body = string_or (draftBody state) [],
                           payload_attachments = attachments state \<rparr>
              in case sendDraftReply fetch_send replyId data of
                   Inr sent \<Rightarrow>
                     (let st2 = showMessage ''success'' ''Reply sent successfully!'' st1;
                          st3 = loadReplies fetch_replies st2
                      in Inr ([PostSendDraft replyId data, GetInboundReplies],
                              setReplyState replyId (\<lambda>s. s\<lparr>sending := Some False\<rparr>) st3))
                 | Inl error \<Rightarrow>
                     Inr ([PostSendDraft replyId data],
                          setReplyState replyId (\<lambda>s. s\<lparr>sending := Some False\<rparr>)
                            (showMessage ''error'' (error_message error) st1)))))"

text \<open>The \<^verbatim>\<open>onChange\<close> handlers of the tone selector and of the two draft inputs.\<close>

definition onChange_selectedTone :: "nat \<Rightarrow> string \<Rightarrow> inbox \<Rightarrow> inbox" where
  "onChange_selectedTone replyId v st = setReplyState replyId (\<lambda>s. s\<lparr>selectedTone := Some v\<rparr>) st"

definition onChange_draftSubject :: "nat \<Rightarrow> string \<Rightarrow> inbox \<Rightarrow> inbox" where
  "onChange_draftSubject replyId v st = setReplyState replyId (\<lambda>s. s\<lparr>draftSubject := Some v\<rparr>) st"

definition onChange_draftBody :: "nat \<Rightarrow> string \<Rightarrow> inbox \<Rightarrow> inbox" where
  "onChange_draftBody replyId v st = setReplyState replyId (\<lambda>s. s\<lparr>draftBody := Some v\<rparr>) st"

definition toggleExpanded :: "nat \<Rightarrow> inbox \<Rightarrow> inbox" where
  "toggleExpanded replyId st =
     st\<lparr>expandedReply := (if expandedReply st = Some replyId then None else Some replyId)\<rparr>"


text \<open>
  The user's actions on the page as events, and the network as the answers to the requests
  of each kind. \<open>dispatch\<close> runs the handler bound to the event.
\<close>

datatype event =
    ChangeTone nat string
  | ChangeSubject nat string
  | ChangeBody nat string
  | ToggleExpanded nat
  | GenerateNextAction nat bool
  | GenerateDraft nat bool
  | SelectFiles nat "string list"
  | RemoveAttachment nat nat
  | SendDraft nat

record network =
  net_action :: "api_request \<Rightarrow> next_action fetch_result"
  net_draft :: "api_request \<Rightarrow> draft fetch_result"
  net_upload :: "api_request \<Rightarrow> attachment fetch_result"
  net_send :: "api_request \<Rightarrow> unit fetch_result"
  net_replies :: "api_request \<Rightarrow> reply list fetch_result"

definition dispatch :: "network \<Rightarrow> event \<Rightarrow> inbox \<Rightarrow> js_exception + api_request list \<times> inbox" where
  "dispatch net e st =
     (case e of
        ChangeTone replyId v \<Rightarrow> Inr ([], onChange_selectedTone replyId v st)
      | ChangeSubject replyId v \<Rightarrow> Inr ([], onChange_draftSubject replyId v st)
      | ChangeBody replyId v \<Rightarrow> Inr ([], onChange_draftBody replyId v st)
      | ToggleExpanded replyId \<Rightarrow> Inr ([], toggleExpanded replyId st)
      | GenerateNextAction replyId force \<Rightarrow>
          Inr (handleGenerateNextAction (net_action net) st replyId force)
      | GenerateDraft replyId force \<Rightarrow> Inr (handleGenerateDraft (net_draft net) st replyId force)
      | SelectFiles replyId files \<Rightarrow> handleFileSelect (net_upload net) st replyId files
      | RemoveAttachment replyId index \<Rightarrow> handleRemoveAttachment st replyId index
      | SendDraft replyId \<Rightarrow> handleSendDraft (net_send net) (net_replies net) st replyId)"


text \<open>
  A page with two replies loaded, on which the user has then edited the subject of the
  second reply's draft; and networks that accept, or refuse, what the page sends.
\<close>

definition example_reply :: "nat \<Rightarrow> string \<Rightarrow> reply" where
  "example_reply i subj =
     \<lparr> reply_id = i, draft_status = Some ''DRAFTED'', draft_tone = Some ''FORMAL'',
       draft_subject = Some subj, draft_body = Some ''Thank you for your reply.'',
       reply_attachments = None, next_action_title = None, next_action_steps = None,
       urgency = None, followup_days = None, suggested_tone = None \<rparr>"

definition example_replies :: "reply list" where
  "example_replies = [example_reply 1 ''Re: Pricing'', example_reply 2 ''Re: Demo'']"

definition example_inbox :: inbox where
  "example_inbox =
     onChange_draftSubject 2 ''Re: Demo on Friday''
       \<lparr> replies = example_replies, loading = False, expandedReply = Some 2, message = None,
         replyStates = initial_states example_replies \<rparr>"

definition accepting :: network where
  "accepting =
     \<lparr> net_action = (\<lambda>q. Response True (Parsed None
          \<lparr> action_title = Some ''Send pricing'', action_steps = Some [''Attach the price list''],
            action_urgency = Some ''TODAY'', action_followup_days = Some 2,
            action_suggested_tone = Some ''FORMAL'' \<rparr>)),
       net_draft = (\<lambda>q. Response True (Parsed None
          \<lparr> subject = Some ''Re: Pricing details'', body = Some ''Please find our prices.'',
            cached = False \<rparr>)),
       net_upload = (\<lambda>q. Response True (Parsed None
          \<lparr> file_name = ''prices.pdf'', storage_ref = ''attachments/prices.pdf'' \<rparr>)),
       net_send = (\<lambda>q. Response True (Parsed None ())),
       net_replies = (\<lambda>q. Response True (Parsed None example_replies)) \<rparr>"

definition refusing :: "string \<Rightarrow> network" where
  "refusing why =
     \<lparr> net_action = (\<lambda>q. Response False (Parsed (Some (JString why)) \<lparr> action_title = None,
            action_steps = None, action_urgency = None, action_followup_days = None,
            action_suggested_tone = None \<rparr>)),
       net_draft = (\<lambda>q. Response False (Parsed (Some (JString why))
          \<lparr> subject = None, body = None, cached = False \<rparr>)),
       net_upload = (\<lambda>q. Response False (Parsed (Some (JString why))
          \<lparr> file_name = [], storage_ref = [] \<rparr>)),
       net_send = (\<lambda>q. Response False (Parsed (Some (JString why)) ())),
       net_replies = (\<lambda>q. Response False (Parsed (Some (JString why)) [])) \<rparr>"


text \<open>The first reply's entry on that page, and the payload a send of it carries.\<close>

definition example_state :: reply_state where
  "example_state =
     \<lparr> generatingAction = Some False, generatingDraft = Some False, sending = Some False,
       selectedTone = Some ''FORMAL'', draftSubject = Some ''Re: Pricing'',
       draftBody = Some ''Thank you for your reply.'', attachments = Some [],
       uploadingFile = Some False \<rparr>"

definition example_payload :: send_payload where
  "example_payload =
     \<lparr> edited_subject = ''Re: Pricing'', edited_body = ''Thank you for your reply.'',
       payload_attachments = Some [] \<rparr>"


section \<open>The backend operations behind the endpoints\<close>

text \<open>
  Modelled from the spec: the backend's data (section 3: Lead, OutboundEmail, InboundReply
  and their enumerations; the backend's source and schema are missing, only the client that
  calls the endpoints is at hand). The operations below are written from section 4, one
  definition per operation. The external collaborators (classifier, drafting and suggestion
  providers, mail transport) are parameters; \<open>None\<close> or \<open>False\<close> is their failure.
\<close>

datatype lead_status = NEW | EMAILED | REPLIED

datatype priority = HIGH | MEDIUM | LOW | IGNORE

datatype intent = INTERESTED | ASKING_PRICE | MEETING | NOT_INTERESTED | UNSUBSCRIBE | SPAM | OTHER

datatype tone = FORMAL | FRIENDLY | SHORT

datatype draft_stage = UNSTARTED | DRAFTED | SENT

datatype backend_error =
    ValidationError | ProviderError | GenerationError | SendError | NotFoundError

record classification =
  cls_intent :: intent
  cls_score :: nat
  cls_priority :: priority
  cls_reasons :: "string list"

record lead_row =
  row_id :: nat
  status :: lead_status
  row_priority :: "priority option"
  row_last_reply_intent :: "intent option"
  row_last_replied_at :: "nat option"

record outbound_email =
  outbound_id :: nat
  outbound_lead :: nat
  message_id :: string
  is_replied :: bool
  reply_summary :: "classification option"

record inbound_reply =
  inbound_id :: nat
  inbound_lead :: nat
  inbound_outbound :: nat
  body_preview :: string
  received_at :: nat
  classified :: "classification option"
  retry_classification :: bool
  stored_action :: "next_action option"
  stored_status :: draft_stage
  stored_tone :: "tone option"
  stored_subject :: "string option"
  stored_body :: "string option"

text \<open>
  Modelled from the spec: a mailbox message (section 4.3; the mail access of the backend is
  missing): its position in the mailbox, the threading token of its headers, its text.
  The stored data carries the sync checkpoint (section 9) and counts the provider calls.
\<close>

record mail =
  mail_uid :: nat
  thread_token :: string
  mail_text :: string
  mail_time :: nat

record backend =
  lead_rows :: "lead_row list"
  outbound_emails :: "outbound_email list"
  inbound_replies :: "inbound_reply list"
  last_sync :: nat
  provider_calls :: nat

text \<open>
  Modelled from the spec: the lookups and the single-row update the operations of section 4
  use on the stored replies (the backend's persistence code is missing).
\<close>

definition find_reply :: "backend \<Rightarrow> nat \<Rightarrow> inbound_reply option" where
  "find_reply db replyId = find (\<lambda>r. inbound_id r = replyId) (inbound_replies db)"

definition update_reply :: "nat \<Rightarrow> (inbound_reply \<Rightarrow> inbound_reply) \<Rightarrow> backend \<Rightarrow> backend" where
  "update_reply replyId change db =
     db\<lparr>inbound_replies :=
          map (\<lambda>r. if inbound_id r = replyId then change r else r) (inbound_replies db)\<rparr>"

definition status_of :: "backend \<Rightarrow> nat \<Rightarrow> draft_stage option" where
  "status_of db replyId = map_option stored_status (find_reply db replyId)"

definition has_reply_for :: "backend \<Rightarrow> nat \<Rightarrow> bool" where
  "has_reply_for db outboundId = list_ex (\<lambda>r. inbound_outbound r = outboundId) (inbound_replies db)"

definition fresh_reply_id :: "backend \<Rightarrow> nat" where
  "fresh_reply_id db = Suc (fold max (map inbound_id (inbound_replies db)) 0)"

text \<open>
  Modelled from the spec: the ingestion of one mailbox message by \<^verbatim>\<open>syncReplies\<close>
  (section 4.3; the backend's source is missing). The token is looked up among the outbound
  emails; no match skips the message; a match whose outbound email already has a reply is
  skipped as well; otherwise the classifier is asked, the reply is stored (with the
  classification unset and a retry flag when the classifier fails), the outbound email
  becomes replied and the lead becomes \<open>REPLIED\<close>. The number returned is the number of
  replies stored.
\<close>

definition ingest :: "(mail \<Rightarrow> classification option) \<Rightarrow> mail \<Rightarrow> backend \<Rightarrow> backend \<times> nat" where
  "ingest classifier m db =
     (case find (\<lambda>e. message_id e = thread_token m) (outbound_emails db) of
        None \<Rightarrow> (db, 0)
      | Some e \<Rightarrow>
          (if has_reply_for db (outbound_id e) then (db, 0)
           else
             (let c = classifier m;
                  r = \<lparr> inbound_id = fresh_reply_id db,
                        inbound_lead = outbound_lead e,
                        inbound_outbound = outbound_id e,
                        body_preview = mail_text m,
                        received_at = mail_time m,
                        classified = c,
                        retry_classification = (c = None),
                        stored_action = None,
                        stored_status = UNSTARTED,
                        stored_tone = None,
                        stored_subject = None,
                        stored_body = None \<rparr>
              in (db\<lparr>inbound_replies := inbound_replies db @ [r],
                     outbound_emails :=
                       map (\<lambda>x. if outbound_id x = outbound_id e
                                 then x\<lparr>is_replied := True, reply_summary := c\<rparr> else x)
                         (outbound_emails db),
                     lead_rows :=
                       map (\<lambda>l. if row_id l = outbound_lead e
                                 then l\<lparr>status := REPLIED,
                                        row_priority :=
                                          (case c of None \<Rightarrow> row_priority l
                                           | Some k \<Rightarrow> Some (cls_priority k)),
                                        row_last_reply_intent :=
                                          (case c of None \<Rightarrow> row_last_reply_intent l
                                           | Some k \<Rightarrow> Some (cls_intent k)),
                                        row_last_replied_at := Some (mail_time m)\<rparr>
                                 else l)
                         (lead_rows db)\<rparr>, 1))))"

text \<open>
  Modelled from the spec: the loop of \<^verbatim>\<open>syncReplies\<close> over the new messages (section
  4.3; the backend's source is missing), summing the replies stored.
\<close>

fun ingest_all ::
  "(mail \<Rightarrow> classification option) \<Rightarrow> mail list \<Rightarrow> backend \<Rightarrow> nat \<Rightarrow> backend \<times> nat" where
  "ingest_all classifier [] db found = (db, found)"
| "ingest_all classifier (m # ms) db found =
     (case ingest classifier m db of
        (db', n) \<Rightarrow> ingest_all classifier ms db' (found + n))"

text \<open>
  Modelled from the spec: \<^verbatim>\<open>syncReplies()\<close> (section 4.3; the backend's source is
  missing). The messages newer than the persisted checkpoint are ingested in mailbox order,
  the checkpoint moves to the newest message seen, and the count of replies stored is
  returned as \<^verbatim>\<open>replies_found\<close>.
\<close>

definition syncReplies_backend ::
  "(mail \<Rightarrow> classification option) \<Rightarrow> mail list \<Rightarrow> backend \<Rightarrow> backend \<times> nat" where
  "syncReplies_backend classifier mailbox db =
     (let new = filter (\<lambda>m. last_sync db < mail_uid m) mailbox
      in case ingest_all classifier new db 0 of
           (db', found) \<Rightarrow> (db'\<lparr>last_sync := fold max (map mail_uid new) (last_sync db)\<rparr>, found))"

text \<open>
  Modelled from the spec: \<^verbatim>\<open>generateNextAction(replyId, force)\<close> (section 4.4; the
  backend's source is missing). A stored action is returned without a provider call unless
  \<open>force\<close> is set; a failed provider call leaves the stored value untouched.
\<close>

definition generateNextAction_backend ::
  "(nat \<Rightarrow> inbound_reply \<Rightarrow> next_action option) \<Rightarrow> backend \<Rightarrow> nat \<Rightarrow> bool \<Rightarrow>
     (backend_error + next_action) \<times> backend" where
  "generateNextAction_backend suggest db replyId force =
     (case find_reply db replyId of
        None \<Rightarrow> (Inl NotFoundError, db)
      | Some r \<Rightarrow>
          (case (stored_action r, force) of
             (Some a, False) \<Rightarrow> (Inr a, db)
           | _ \<Rightarrow>
               (let db1 = db\<lparr>provider_calls := Suc (provider_calls db)\<rparr>
                in case suggest (provider_calls db) r of
                     None \<Rightarrow> (Inl GenerationError, db1)
                   | Some a \<Rightarrow> (Inr a, update_reply replyId (\<lambda>x. x\<lparr>stored_action := Some a\<rparr>) db1))))"

text \<open>
  Modelled from the spec: \<^verbatim>\<open>generateDraft(replyId, tone, force)\<close> (section 4.5; the
  backend's source is missing). If a draft exists for this reply with the same tone and
  \<open>force\<close> is not set, the stored draft is returned with \<open>cached\<close> set. Otherwise the
  drafting provider is called; its subject, body and the tone are stored and the status is
  set to \<open>DRAFTED\<close>.
\<close>

definition generateDraft_backend ::
  "(nat \<Rightarrow> inbound_reply \<Rightarrow> tone \<Rightarrow> (string \<times> string) option) \<Rightarrow> backend \<Rightarrow> nat \<Rightarrow> tone \<Rightarrow> bool \<Rightarrow>
     (backend_error + draft) \<times> backend" where
  "generateDraft_backend drafter db replyId t force =
     (case find_reply db replyId of
        None \<Rightarrow> (Inl NotFoundError, db)
      | Some r \<Rightarrow>
          (if stored_subject r \<noteq> None \<and> stored_body r \<noteq> None \<and> stored_tone r = Some t \<and> \<not> force
           then (Inr \<lparr> subject = stored_subject r, body = stored_body r, cached = True \<rparr>, db)
           else
             (let db1 = db\<lparr>provider_calls := Suc (provider_calls db)\<rparr>
              in case drafter (provider_calls db) r t of
                   None \<Rightarrow> (Inl ProviderError, db1)
                 | Some (s, b) \<Rightarrow>
                     (Inr \<lparr> subject = Some s, body = Some b, cached = False \<rparr>,
                      update_reply replyId
                        (\<lambda>x. x\<lparr>stored_subject := Some s, stored_body := Some b,
                                stored_tone := Some t, stored_status := DRAFTED\<rparr>) db1))))"

text \<open>
  Modelled from the spec: \<^verbatim>\<open>sendDraftReply(replyId, editedSubject, editedBody,
  attachments)\<close> (section 4.6; the backend's source is missing). Subject and body are
  validated to be non-empty; the message is handed to the transport, threaded against the
  original outbound email's message id; transport success sets the status to \<open>SENT\<close>,
  transport failure is a \<open>SendError\<close> and leaves the reply as it was.
\<close>

definition sendDraftReply_backend ::
  "(string \<Rightarrow> string \<Rightarrow> string \<Rightarrow> attachment list \<Rightarrow> bool) \<Rightarrow> backend \<Rightarrow> nat \<Rightarrow> string \<Rightarrow> string \<Rightarrow>
     attachment list \<Rightarrow> (backend_error + unit) \<times> backend" where
  "sendDraftReply_backend transport db replyId editedSubject editedBody files =
     (if editedSubject = [] \<or> editedBody = [] then (Inl ValidationError, db)
      else
        (case find_reply db replyId of
           None \<Rightarrow> (Inl NotFoundError, db)
         | Some r \<Rightarrow>
             (case find (\<lambda>e. outbound_id e = inbound_outbound r) (outbound_emails db) of
                None \<Rightarrow> (Inl NotFoundError, db)
              | Some e \<Rightarrow>
                  (if transport (message_id e) editedSubject editedBody files
                   then (Inr (), update_reply replyId (\<lambda>x. x\<lparr>stored_status := SENT\<rparr>) db)
                   else (Inl SendError, db)))))"

text \<open>
  Modelled from the spec: the operations a client can ask of the backend (sections 4.3 to
  4.6; the backend's routing is missing), and the step each makes on the stored data.
\<close>

datatype operation =
    Sync "mail list"
  | NextAction nat bool
  | Draft nat tone bool
  | Send nat string string "attachment list"

record collaborators =
  env_classifier :: "mail \<Rightarrow> classification option"
  env_suggest :: "nat \<Rightarrow> inbound_reply \<Rightarrow> next_action option"
  env_drafter :: "nat \<Rightarrow> inbound_reply \<Rightarrow> tone \<Rightarrow> (string \<times> string) option"
  env_transport :: "string \<Rightarrow> string \<Rightarrow> string \<Rightarrow> attachment list \<Rightarrow> bool"

definition perform :: "collaborators \<Rightarrow> operation \<Rightarrow> backend \<Rightarrow> backend" where
  "perform env op db =
     (case op of
        Sync mailbox \<Rightarrow> fst (syncReplies_backend (env_classifier env) mailbox db)
      | NextAction replyId force \<Rightarrow> snd (generateNextAction_backend (env_suggest env) db replyId force)
      | Draft replyId t force \<Rightarrow> snd (generateDraft_backend (env_drafter env) db replyId t force)
      | Send replyId s b files \<Rightarrow> snd (sendDraftReply_backend (env_transport env) db replyId s b files))"

text \<open>
  A small installation: one lead, one tracked outbound email, no reply yet; a mailbox with
  an answer to that email and an unrelated message; collaborators that always succeed, the
  drafting provider numbering its drafts by the calls made so far.
\<close>

definition example_backend :: backend where
  "example_backend =
     \<lparr> lead_rows = [\<lparr> row_id = 7, status = EMAILED, row_priority = None,
                       row_last_reply_intent = None, row_last_replied_at = None \<rparr>],
       outbound_emails = [\<lparr> outbound_id = 10, outbound_lead = 7, message_id = ''m-10@crm'',
                             is_replied = False, reply_summary = None \<rparr>],
       inbound_replies = [],
       last_sync = 0,
       provider_calls = 0 \<rparr>"

definition example_mailbox :: "mail list" where
  "example_mailbox =
     [\<lparr> mail_uid = 1, thread_token = ''m-10@crm'', mail_text = ''What does it cost?'', mail_time = 100 \<rparr>,
      \<lparr> mail_uid = 2, thread_token = ''newsletter'', mail_text = ''Weekly news'', mail_time = 101 \<rparr>]"

definition example_env :: collaborators where
  "example_env =
     \<lparr> env_classifier = (\<lambda>m. Some \<lparr> cls_intent = ASKING_PRICE, cls_score = 80,
                                     cls_priority = HIGH, cls_reasons = [''asks for a price''] \<rparr>),
       env_suggest = (\<lambda>n r. Some \<lparr> action_title = Some ''Send pricing'',
                                   action_steps = Some [''Attach the price list''],
                                   action_urgency = Some ''TODAY'', action_followup_days = Some 2,
                                   action_suggested_tone = Some ''FORMAL'' \<rparr>),
       env_drafter = (\<lambda>n r t. Some (''Re: Pricing'', ''Draft number '' @ show_nat n)),
       env_transport = (\<lambda>mid s b files. True) \<rparr>"

definition example_mail :: mail where
  "example_mail =
     \<lparr> mail_uid = 1, thread_token = ''m-10@crm'', mail_text = ''What does it cost?'', mail_time = 100 \<rparr>"

definition example_outbound :: outbound_email where
  "example_outbound =
     \<lparr> outbound_id = 10, outbound_lead = 7, message_id = ''m-10@crm'',
       is_replied = False, reply_summary = None \<rparr>"

definition example_synced :: backend where
  "example_synced = perform example_env (Sync example_mailbox) example_backend"

definition example_drafted :: backend where
  "example_drafted = perform example_env (Draft 1 FRIENDLY False) example_synced"

definition example_row :: inbound_reply where
  "example_row =
     \<lparr> inbound_id = 1, inbound_lead = 7, inbound_outbound = 10,
       body_preview = ''What does it cost?'', received_at = 100,
       classified = Some \<lparr> cls_intent = ASKING_PRICE, cls_score = 80, cls_priority = HIGH,
                           cls_reasons = [''asks for a price''] \<rparr>,
       retry_classification = False, stored_action = None, stored_status = DRAFTED,
       stored_tone = Some FRIENDLY, stored_subject = Some ''Re: Pricing'',
       stored_body = Some ''Draft number 0'' \<rparr>"


section \<open>Properties of the displayed order of leads\<close>

lemmas lead_eval =
  filteredLeads_def js_sort_def passes_filters_def compare_leads_def rank_of_def
  priorityRank_def object_prototype_keys_def score_of_def js_minus_def sort_order_def
  mk_lead_def example_leads_def tied_leads_def Let_def plain_priority_def displayed_before_def
  stated_level_def stated_score_def

lemma set_insert_by: "set (insert_by c x ys) = insert x (set ys)"
  by (induction ys) auto

lemma mset_insert_by: "mset (insert_by c x ys) = add_mset x (mset ys)"
  by (induction ys) auto

lemma mset_js_sort: "mset (js_sort c xs) = mset xs"
  unfolding js_sort_def by (induction xs) (auto simp: mset_insert_by)

lemma set_js_sort: "set (js_sort c xs) = set xs"
  using mset_js_sort [of c xs] by (metis set_mset_mset)

text \<open>
  Insertion keeps a list sorted when, on the elements at hand, the comparison function
  agrees with a total and transitive order.
\<close>

lemma sorted_insert_by:
  assumes tot: "\<And>a b. a \<in> S \<Longrightarrow> b \<in> S \<Longrightarrow> P a b \<or> P b a"
    and tr: "\<And>a b d. a \<in> S \<Longrightarrow> b \<in> S \<Longrightarrow> d \<in> S \<Longrightarrow> P a b \<Longrightarrow> P b d \<Longrightarrow> P a d"
    and agree: "\<And>a b. a \<in> S \<Longrightarrow> b \<in> S \<Longrightarrow> (sort_order (c a b) \<le> 0) = P a b"
    and x: "x \<in> S" and ys: "set ys \<subseteq> S" and srt: "sorted_wrt P ys"
  shows "sorted_wrt P (insert_by c x ys)"
  using ys srt
proof (induction ys)
  case Nil
  then show ?case by simp
next
  case (Cons y ys)
  show ?case
  proof (cases "sort_order (c x y) \<le> 0")
    case True
    then have xy: "P x y" using agree x Cons.prems(1) by auto
    have "\<forall>z\<in>set ys. P x z"
    proof
      fix z assume z: "z \<in> set ys"
      then have "P y z" using Cons.prems(2) by auto
      then show "P x z" using tr [of x y z] xy x z Cons.prems(1) by auto
    qed
    then show ?thesis using True xy Cons.prems(2) by simp
  next
    case False
    then have "\<not> P x y" using agree x Cons.prems(1) by auto
    then have yx: "P y x" using tot [of x y] x Cons.prems(1) by auto
    have "sorted_wrt P (insert_by c x ys)" using Cons by auto
    then show ?thesis using False yx Cons.prems(2) by (auto simp: set_insert_by)
  qed
qed

lemma sorted_js_sort:
  assumes tot: "\<And>a b. a \<in> S \<Longrightarrow> b \<in> S \<Longrightarrow> P a b \<or> P b a"
    and tr: "\<And>a b d. a \<in> S \<Longrightarrow> b \<in> S \<Longrightarrow> d \<in> S \<Longrightarrow> P a b \<Longrightarrow> P b d \<Longrightarrow> P a d"
    and agree: "\<And>a b. a \<in> S \<Longrightarrow> b \<in> S \<Longrightarrow> (sort_order (c a b) \<le> 0) = P a b"
    and xs: "set xs \<subseteq> S"
  shows "sorted_wrt P (js_sort c xs)"
  using xs
proof (induction xs)
  case Nil
  then show ?case by (simp add: js_sort_def)
next
  case (Cons x xs)
  have "sorted_wrt P (js_sort c xs)" using Cons by auto
  moreover have "set (js_sort c xs) \<subseteq> S" using Cons.prems by (simp add: set_js_sort)
  moreover have "x \<in> S" using Cons.prems by simp
  ultimately have "sorted_wrt P (insert_by c x (js_sort c xs))"
    using sorted_insert_by [of S P c x "js_sort c xs"] tot tr agree by blast
  then show ?case by (simp add: js_sort_def)
qed

text \<open>
  On leads with plain priorities the comparison function is the difference of the stated
  levels or, at equal levels, of the stated scores.
\<close>

lemma rank_of_plain:
  "plain_priority a \<Longrightarrow> rank_of (lead_priority a) = Num (stated_level (lead_priority a))"
  by (auto simp: plain_priority_def rank_of_def priorityRank_def stated_level_def
      split: option.splits)

lemma compare_plain:
  assumes "plain_priority a" and "plain_priority b"
  shows "sort_order (compare_leads a b) =
     (if stated_level (lead_priority a) \<noteq> stated_level (lead_priority b)
      then stated_level (lead_priority b) - stated_level (lead_priority a)
      else stated_score (lead_score b) - stated_score (lead_score a))"
  using rank_of_plain [OF assms(1)] rank_of_plain [OF assms(2)]
  by (simp add: compare_leads_def js_minus_def sort_order_def score_of_def stated_score_def Let_def)

lemma compare_displayed_before:
  "plain_priority a \<Longrightarrow> plain_priority b \<Longrightarrow>
   (sort_order (compare_leads a b) \<le> 0) = displayed_before a b"
  by (auto simp: compare_plain displayed_before_def)

lemma displayed_before_total: "displayed_before a b \<or> displayed_before b a"
  by (auto simp: displayed_before_def)

lemma displayed_before_trans:
  "displayed_before a b \<Longrightarrow> displayed_before b d \<Longrightarrow> displayed_before a d"
  by (auto simp: displayed_before_def)

lemma sorted_filteredLeads:
  assumes "list_all plain_priority leads"
  shows "sorted_wrt displayed_before (filteredLeads leads priorityFilter intentFilter)"
proof -
  let ?S = "{l. plain_priority l}"
  let ?xs = "filter (passes_filters priorityFilter intentFilter) leads"
  have sub: "set ?xs \<subseteq> ?S" using assms by (auto simp: list_all_iff)
  have "sorted_wrt displayed_before (js_sort compare_leads ?xs)"
  proof (rule sorted_js_sort [where S = ?S])
    show "\<And>a b. displayed_before a b \<or> displayed_before b a"
      by (rule displayed_before_total)
    show "\<And>a b d. displayed_before a b \<Longrightarrow> displayed_before b d \<Longrightarrow> displayed_before a d"
      by (rule displayed_before_trans)
    show "\<And>a b. a \<in> ?S \<Longrightarrow> b \<in> ?S \<Longrightarrow>
        (sort_order (compare_leads a b) \<le> 0) = displayed_before a b"
      by (simp add: compare_displayed_before)
    show "set ?xs \<subseteq> ?S" by (rule sub)
  qed
  then show ?thesis by (simp add: filteredLeads_def)
qed

text \<open>On such leads the comparison function is consistent, so the language fixes the order.\<close>

lemma consistent_compare_leads:
  assumes "list_all plain_priority xs"
  shows "consistent_on compare_leads xs"
proof -
  have p: "plain_priority a" if "a \<in> set xs" for a
    using assms that by (simp add: list_all_iff)
  show ?thesis
    unfolding consistent_on_def list_all_iff
  proof (intro ballI conjI)
    fix a assume "a \<in> set xs"
    then show "sort_order (compare_leads a a) = 0" by (simp add: compare_plain p)
  next
    fix a b assume "a \<in> set xs" "b \<in> set xs"
    then show "(sort_order (compare_leads a b) < 0) = (0 < sort_order (compare_leads b a))"
      by (auto simp: compare_plain p)
  next
    fix a b d assume "a \<in> set xs" "b \<in> set xs" "d \<in> set xs"
    then show "sort_order (compare_leads a b) = 0 \<and> sort_order (compare_leads b d) = 0 \<longrightarrow>
               sort_order (compare_leads a d) = 0"
      by (auto simp: compare_plain p split: if_splits)
  next
    fix a b d assume "a \<in> set xs" "b \<in> set xs" "d \<in> set xs"
    then show "sort_order (compare_leads a b) < 0 \<and> sort_order (compare_leads b d) < 0 \<longrightarrow>
               sort_order (compare_leads a d) < 0"
      by (auto simp: compare_plain p split: if_splits)
  next
    fix a b d assume "a \<in> set xs" "b \<in> set xs" "d \<in> set xs"
    then show "0 < sort_order (compare_leads a b) \<and> 0 < sort_order (compare_leads b d) \<longrightarrow>
               0 < sort_order (compare_leads a d)"
      by (auto simp: compare_plain p split: if_splits)
  qed
qed

lemma example_order:
  "map (\<lambda>l. (lead_priority l, lead_score l)) (filteredLeads example_leads ''ALL'' ''ALL'') =
     [(Some ''HIGH'', Some 90), (Some ''HIGH'', Some 70),
      (Some ''MEDIUM'', Some 50), (Some ''LOW'', Some 10)]"
  by (simp add: lead_eval)

lemma tied_order:
  "map (\<lambda>l. (lead_id l, lead_priority l, lead_score l)) (filteredLeads tied_leads ''ALL'' ''ALL'') =
     [(4, Some ''HIGH'', Some 90), (1, Some ''HIGH'', Some 70), (6, Some ''HIGH'', Some 70),
      (5, Some ''MEDIUM'', Some 20), (3, Some ''MEDIUM'', None),
      (7, Some ''IGNORE'', Some 100), (2, None, Some 99)]"
  by (simp add: lead_eval)

text \<open>
  C1. The list the Leads page displays is the filtered list of leads reordered so that
  every lead stands before the leads after it in the stated order: HIGH before MEDIUM before
  LOW before IGNORE, and within one level the higher score first. This holds for every list
  of leads whose priorities are plain (the four levels, a missing priority, any string that
  is not a key a plain object inherits); on those the comparison function is consistent, so
  the order is the one every engine produces. The leads LOW/10, HIGH/90, MEDIUM/50, HIGH/70
  are displayed as HIGH/90, HIGH/70, MEDIUM/50, LOW/10; leads that arrive as HIGH/70,
  none/99, MEDIUM/none, HIGH/90, MEDIUM/20, HIGH/70, IGNORE/100 are displayed as HIGH/90,
  HIGH/70, HIGH/70, MEDIUM/20, MEDIUM/none, IGNORE/100, none/99.
\<close>

theorem C1_display_order:
  assumes "list_all plain_priority leads"
  shows "sorted_wrt displayed_before (filteredLeads leads priorityFilter intentFilter) \<and>
         mset (filteredLeads leads priorityFilter intentFilter) =
           mset (filter (passes_filters priorityFilter intentFilter) leads) \<and>
         consistent_on compare_leads (filter (passes_filters priorityFilter intentFilter) leads) \<and>
         map (\<lambda>l. (lead_priority l, lead_score l)) (filteredLeads example_leads ''ALL'' ''ALL'') =
           [(Some ''HIGH'', Some 90), (Some ''HIGH'', Some 70),
            (Some ''MEDIUM'', Some 50), (Some ''LOW'', Some 10)] \<and>
         map (\<lambda>l. (lead_id l, lead_priority l, lead_score l)) (filteredLeads tied_leads ''ALL'' ''ALL'') =
           [(4, Some ''HIGH'', Some 90), (1, Some ''HIGH'', Some 70), (6, Some ''HIGH'', Some 70),
            (5, Some ''MEDIUM'', Some 20), (3, Some ''MEDIUM'', None),
            (7, Some ''IGNORE'', Some 100), (2, None, Some 99)]"
proof -
  have "list_all plain_priority (filter (passes_filters priorityFilter intentFilter) leads)"
    using assms by (auto simp: list_all_iff)
  then have "consistent_on compare_leads (filter (passes_filters priorityFilter intentFilter) leads)"
    by (rule consistent_compare_leads)
  then show ?thesis
    using sorted_filteredLeads [OF assms] example_order tied_order
    by (simp add: filteredLeads_def mset_js_sort)
qed

theorem C1_display_order_witness:
  "list_all plain_priority tied_leads \<and>
   sorted_wrt displayed_before (filteredLeads tied_leads ''HIGH'' ''ALL'') \<and>
   map (\<lambda>l. (lead_id l, lead_score l)) (filteredLeads tied_leads ''HIGH'' ''ALL'') =
     [(4, Some 90), (1, Some 70), (6, Some 70)] \<and>
   \<not> displayed_before (mk_lead 1 (Some ''HIGH'') (Some 70)) (mk_lead 4 (Some ''HIGH'') (Some 90)) \<and>
   \<not> displayed_before (mk_lead 5 (Some ''MEDIUM'') (Some 20)) (mk_lead 1 (Some ''HIGH'') (Some 70)) \<and>
   filteredLeads tied_leads ''ALL'' ''MEETING'' = []"
proof -
  have f: "filteredLeads tied_leads ''ALL'' ''MEETING'' = []" by (simp add: lead_eval)
  have h: "list_all plain_priority tied_leads" by (simp add: lead_eval)
  have e: "map (\<lambda>l. (lead_id l, lead_score l)) (filteredLeads tied_leads ''HIGH'' ''ALL'') =
     [(4, Some 90), (1, Some 70), (6, Some 70)]"
    by (simp add: lead_eval)
  have n: "\<not> displayed_before (mk_lead 1 (Some ''HIGH'') (Some 70)) (mk_lead 4 (Some ''HIGH'') (Some 90)) \<and>
   \<not> displayed_before (mk_lead 5 (Some ''MEDIUM'') (Some 20)) (mk_lead 1 (Some ''HIGH'') (Some 70))"
    by (simp add: lead_eval)
  show ?thesis using h e n f C1_display_order [OF h, of "''HIGH''" "''ALL''"] by simp
qed

text \<open>
  A priority outside the rank table, or a missing one, has rank 0 as long as the table does
  not inherit the key; a missing score counts as 0.
\<close>

lemma rank_zero_outside_table:
  "rank_of None = Num 0"
  "p \<notin> {''HIGH'', ''MEDIUM'', ''LOW'', ''IGNORE''} \<Longrightarrow> p \<notin> set object_prototype_keys \<Longrightarrow>
     rank_of (Some p) = Num 0"
  "score_of None = 0"
  by (auto simp: rank_of_def priorityRank_def score_of_def)

text \<open>
  C10, evaluated where it fails. The priority \<^verbatim>\<open>"constructor"\<close> is not one of the four
  levels, yet the rank read for it is the function the table inherits, not 0; comparing it
  with an IGNORE lead gives \<^verbatim>\<open>NaN\<close> in both directions, and the lead stays in front of
  the IGNORE lead.
\<close>

theorem C10_inherited_key_is_not_rank_zero:
  "rank_of (Some ''constructor'') = Inherited ''constructor'' \<and>
   compare_leads (mk_lead 1 (Some ''constructor'') (Some 0)) (mk_lead 2 (Some ''IGNORE'') (Some 0)) = None \<and>
   compare_leads (mk_lead 2 (Some ''IGNORE'') (Some 0)) (mk_lead 1 (Some ''constructor'') (Some 0)) = None \<and>
   map lead_id
     (filteredLeads [mk_lead 1 (Some ''constructor'') (Some 0), mk_lead 2 (Some ''IGNORE'') (Some 0)]
        ''ALL'' ''ALL'') = [1, 2]"
  by (simp add: lead_eval)

section \<open>Properties of the API client\<close>

lemmas client_defs = createLead_def sendEmail_def syncReplies_def generateNextAction_def
  generateDraft_def uploadAttachment_def sendDraftReply_def getInboundReplies_def
  getLeads_def getOutboundEmails_def detail_or_json_def fixed_or_json_def

text \<open>
  C8. For each of the seven mutating client functions: when the body of the response to
  its request parses as JSON (for a response that is not ok: to a value other than
  \<^verbatim>\<open>null\<close>), a response that is not ok makes the function throw an Error whose message
  is the body's \<^verbatim>\<open>detail\<close> or, failing that, the function's fixed text, and an ok
  response makes it return the parsed body. A non-empty detail string is the message
  itself; an absent detail, like an empty one, gives the fixed text.
\<close>

theorem C8_client_error_contract:
  "(fetch (PostLeads leadData) = Response ok (Parsed detail v) \<longrightarrow>
      createLead fetch leadData =
        (if ok then Inr v else Inl (Error (detail_or detail ''Failed to create lead'')))) \<and>
   (fetch (PostEmailsSend emailData) = Response ok (Parsed detail v) \<longrightarrow>
      sendEmail fetch emailData =
        (if ok then Inr v else Inl (Error (detail_or detail ''Failed to send email'')))) \<and>
   (fetch PostSyncReplies = Response ok (Parsed detail v) \<longrightarrow>
      syncReplies fetch =
        (if ok then Inr v else Inl (Error (detail_or detail ''Failed to sync replies'')))) \<and>
   (fetch (PostGenerateNextAction replyId force) = Response ok (Parsed detail v) \<longrightarrow>
      generateNextAction fetch replyId force =
        (if ok then Inr v else Inl (Error (detail_or detail ''Failed to generate next action'')))) \<and>
   (fetch (PostGenerateDraft replyId tone force) = Response ok (Parsed detail v) \<longrightarrow>
      generateDraft fetch replyId tone force =
        (if ok then Inr v else Inl (Error (detail_or detail ''Failed to generate draft'')))) \<and>
   (fetch (PostUploadAttachment file) = Response ok (Parsed detail v) \<longrightarrow>
      uploadAttachment fetch file =
        (if ok then Inr v else Inl (Error (detail_or detail ''Failed to upload file'')))) \<and>
   (fetch (PostSendDraft replyId data) = Response ok (Parsed detail v) \<longrightarrow>
      sendDraftReply fetch replyId data =
        (if ok then Inr v else Inl (Error (detail_or detail ''Failed to send draft'')))) \<and>
   detail_or (Some (JString (c # cs))) fallback = c # cs \<and>
   detail_or (Some (JString [])) fallback = fallback \<and>
   detail_or None fallback = fallback"
  by (simp add: client_defs detail_or_def)

theorem C8_client_error_contract_witness:
  "createLead (\<lambda>q. Response False (Parsed (Some (JString ''Email already exists'')) ()))
      \<lparr> form_name = ''Ada'', form_email = ''ada@example.com'', form_company = [] \<rparr>
     = Inl (Error ''Email already exists'') \<and>
   sendDraftReply (\<lambda>q. Response False (Parsed None ())) 1 example_payload
     = Inl (Error ''Failed to send draft'') \<and>
   generateDraft (\<lambda>q. Response True (Parsed None (''Re: Pricing''))) 1 ''FORMAL'' False
     = Inr ''Re: Pricing''"
  using C8_client_error_contract [where fetch = "\<lambda>q. Response False (Parsed (Some (JString ''Email already exists'')) ())"
      and leadData = "\<lparr> form_name = ''Ada'', form_email = ''ada@example.com'', form_company = [] \<rparr>"
      and ok = False and detail = "Some (JString ''Email already exists'')" and v = "()"]
    C8_client_error_contract [where fetch = "\<lambda>q. Response False (Parsed None ())"
      and ok = False and detail = None and v = "()" and replyId = 1 and data = example_payload]
    C8_client_error_contract [where fetch = "\<lambda>q. Response True (Parsed None (''Re: Pricing''))"
      and ok = True and detail = None and v = "''Re: Pricing''" and replyId = 1 and tone = "''FORMAL''"
      and force = False]
  by (simp add: detail_or_def)

text \<open>
  Outside the contract of the endpoints: when the body of a response that is not ok is the
  JSON value \<^verbatim>\<open>null\<close>, reading its \<^verbatim>\<open>detail\<close> raises a \<^verbatim>\<open>TypeError\<close>, and that is
  what the mutating functions throw; a body that is not JSON makes them throw the
  \<^verbatim>\<open>SyntaxError\<close> of the parser.
\<close>

lemma null_body_throws_type_error:
  "fetch (PostLeads leadData) = NullNotOk m \<Longrightarrow> createLead fetch leadData = Inl (NullTypeError m)"
  "fetch (PostEmailsSend emailData) = NullNotOk m \<Longrightarrow> sendEmail fetch emailData = Inl (NullTypeError m)"
  "fetch PostSyncReplies = NullNotOk m \<Longrightarrow> syncReplies fetch = Inl (NullTypeError m)"
  "fetch (PostGenerateNextAction replyId force) = NullNotOk m \<Longrightarrow>
     generateNextAction fetch replyId force = Inl (NullTypeError m)"
  "fetch (PostGenerateDraft replyId tone force) = NullNotOk m \<Longrightarrow>
     generateDraft fetch replyId tone force = Inl (NullTypeError m)"
  "fetch (PostUploadAttachment file) = NullNotOk m \<Longrightarrow> uploadAttachment fetch file = Inl (NullTypeError m)"
  "fetch (PostSendDraft replyId data) = NullNotOk m \<Longrightarrow>
     sendDraftReply fetch replyId data = Inl (NullTypeError m)"
  by (simp_all add: client_defs)

lemma not_json_body_throws_syntax_error:
  "fetch (PostLeads leadData) = Response ok (NotJson m) \<Longrightarrow> createLead fetch leadData = Inl (SyntaxError m)"
  "fetch (PostSendDraft replyId data) = Response ok (NotJson m) \<Longrightarrow>
     sendDraftReply fetch replyId data = Inl (SyntaxError m)"
  by (simp_all add: client_defs)

section \<open>Properties of the Replies inbox handlers\<close>

lemma setReplyState_other [simp]:
  "other \<noteq> replyId \<Longrightarrow> replyStates (setReplyState replyId change st) other = replyStates st other"
  by (simp add: setReplyState_def)

lemma setReplyState_same [simp]:
  "replyStates (setReplyState replyId change st) replyId = Some (change (spread (replyStates st) replyId))"
  by (simp add: setReplyState_def)

lemma setReplyState_rest [simp]:
  "replies (setReplyState replyId change st) = replies st"
  "message (setReplyState replyId change st) = message st"
  "loading (setReplyState replyId change st) = loading st"
  "expandedReply (setReplyState replyId change st) = expandedReply st"
  by (simp_all add: setReplyState_def)

lemma showMessage_simps [simp]:
  "replyStates (showMessage t m st) = replyStates st"
  "replies (showMessage t m st) = replies st"
  "message (showMessage t m st) = Some (t, m)"
  by (simp_all add: showMessage_def)




lemma file_select_no_exception:
  "handleFileSelect fetch st replyId files \<noteq> Inl TypeError"
  by (auto simp: handleFileSelect_def Let_def split: sum.splits prod.splits option.splits)

lemma remove_attachment_frame:
  "other \<noteq> replyId \<Longrightarrow> handleRemoveAttachment st replyId index = Inr (sent, st') \<Longrightarrow>
   replyStates st' other = replyStates st other"
  by (auto simp: handleRemoveAttachment_def split: option.splits)



lemma send_refused:
  "replyStates st replyId = Some state \<Longrightarrow> falsy (draftSubject state) \<or> falsy (draftBody state) \<Longrightarrow>
   handleSendDraft fetch_send fetch_replies st replyId =
     Inr ([], st\<lparr>message := Some (''error'', ''Please generate a draft first'')\<rparr>)"
  by (auto simp: handleSendDraft_def showMessage_def)

lemma send_failed:
  assumes "replyStates st replyId = Some state"
    and "\<not> falsy (draftSubject state)" and "\<not> falsy (draftBody state)"
    and "data = \<lparr> edited_subject = string_or (draftSubject state) [],
                   edited_body = string_or (draftBody state) [],
                   payload_attachments = attachments state \<rparr>"
    and "sendDraftReply fetch_send replyId data = Inl error"
  shows "handleSendDraft fetch_send fetch_replies st replyId =
     Inr ([PostSendDraft replyId data],
          st\<lparr>message := Some (''error'', error_message error),
             replyStates := (replyStates st)(replyId \<mapsto> state\<lparr>sending := Some False\<rparr>)\<rparr>)"
  using assms
  by (simp add: handleSendDraft_def Let_def setReplyState_def showMessage_def spread_def)




lemmas example_eval = example_inbox_def example_replies_def example_reply_def accepting_def
  refusing_def initial_states_def initial_state_def string_or_def falsy_def tone_of_def
  onChange_draftSubject_def onChange_draftBody_def onChange_selectedTone_def
  setReplyState_def spread_def no_fields_def showMessage_def error_message_def

lemma example_state_1: "replyStates example_inbox 1 = Some example_state"
  by (simp add: example_eval example_state_def)

text \<open>
  C7. When the send request of a dispatched draft fails, the handler reports the error and
  leaves the reply's entry as it was but for \<open>sending\<close>, which is reset: subject, body
  and attachments are those of before the attempt. The list of replies, and with it every
  \<open>draft_status\<close> the page holds, is unchanged, and only the one request was sent.
\<close>

theorem C7_failed_send_keeps_the_draft:
  assumes "replyStates st replyId = Some state"
    and "\<not> falsy (draftSubject state)" and "\<not> falsy (draftBody state)"
    and "data = \<lparr> edited_subject = string_or (draftSubject state) [],
                   edited_body = string_or (draftBody state) [],
                   payload_attachments = attachments state \<rparr>"
    and "sendDraftReply fetch_send replyId data = Inl error"
    and "st' = st\<lparr>message := Some (''error'', error_message error),
                  replyStates := (replyStates st)(replyId \<mapsto> state\<lparr>sending := Some False\<rparr>)\<rparr>"
  shows "handleSendDraft fetch_send fetch_replies st replyId = Inr ([PostSendDraft replyId data], st') \<and>
         replyStates st' replyId = Some (state\<lparr>sending := Some False\<rparr>) \<and>
         map_option draftSubject (replyStates st' replyId) = Some (draftSubject state) \<and>
         map_option draftBody (replyStates st' replyId) = Some (draftBody state) \<and>
         map_option attachments (replyStates st' replyId) = Some (attachments state) \<and>
         replies st' = replies st \<and>
         map draft_status (replies st') = map draft_status (replies st)"
  using send_failed [OF assms(1-5), of fetch_replies] assms(6) by simp

theorem C7_failed_send_keeps_the_draft_witness:
  "replyStates example_inbox 1 = Some example_state \<and>
   \<not> falsy (draftSubject example_state) \<and> \<not> falsy (draftBody example_state) \<and>
   sendDraftReply (net_send (refusing ''SMTP down'')) 1 example_payload = Inl (Error ''SMTP down'') \<and>
   (case handleSendDraft (net_send (refusing ''SMTP down'')) (net_replies accepting) example_inbox 1 of
      Inl x \<Rightarrow> None
    | Inr (sent, st') \<Rightarrow> Some (sent, message st', replyStates st' 1, replies st')) =
     Some ([PostSendDraft 1 example_payload], Some (''error'', ''SMTP down''),
           Some example_state, example_replies)"
proof -
  have h1: "replyStates example_inbox 1 = Some example_state" by (rule example_state_1)
  have h2: "\<not> falsy (draftSubject example_state)" by (simp add: example_state_def falsy_def)
  have h3: "\<not> falsy (draftBody example_state)" by (simp add: example_state_def falsy_def)
  have h4: "example_payload = \<lparr> edited_subject = string_or (draftSubject example_state) [],
                   edited_body = string_or (draftBody example_state) [],
                   payload_attachments = attachments example_state \<rparr>"
    by (simp add: example_payload_def example_state_def string_or_def)
  have h5: "sendDraftReply (net_send (refusing ''SMTP down'')) 1 example_payload = Inl (Error ''SMTP down'')"
    by (simp add: refusing_def sendDraftReply_def detail_or_json_def detail_or_def)
  have h6: "example_state\<lparr>sending := Some False\<rparr> = example_state"
    by (simp add: example_state_def)
  have h7: "replies example_inbox = example_replies"
    by (simp add: example_eval)
  show ?thesis
    using h1 h2 h3 h5 h6 h7
      C7_failed_send_keeps_the_draft [OF h1 h2 h3 h4 h5 refl, of "net_replies accepting"]
    by (simp add: error_message_def)
qed




text \<open>
  C3. Editing the subject or the body of a draft sends no request and changes only the
  reply's entry on the page. A following draft generation sends the reply id, the tone and
  the force flag, the same request as without the edits, and on success sets subject and
  body to those of the response, whatever the user had typed.
\<close>

theorem C3_edits_stay_on_the_page:
  "dispatch net (ChangeSubject replyId v) st =
     Inr ([], st\<lparr>replyStates :=
               (replyStates st)(replyId \<mapsto> (spread (replyStates st) replyId)\<lparr>draftSubject := Some v\<rparr>)\<rparr>) \<and>
   dispatch net (ChangeBody replyId v) st =
     Inr ([], st\<lparr>replyStates :=
               (replyStates st)(replyId \<mapsto> (spread (replyStates st) replyId)\<lparr>draftBody := Some v\<rparr>)\<rparr>) \<and>
   fst (handleGenerateDraft fetch (onChange_draftBody replyId b (onChange_draftSubject replyId s st)) replyId force) =
     [PostGenerateDraft replyId (tone_of (replyStates st replyId)) force] \<and>
   fst (handleGenerateDraft fetch st replyId force) =
     [PostGenerateDraft replyId (tone_of (replyStates st replyId)) force] \<and>
   (generateDraft fetch replyId (tone_of (replyStates st replyId)) force = Inr d \<longrightarrow>
      map_option draftSubject
        (replyStates (snd (handleGenerateDraft fetch
           (onChange_draftBody replyId b (onChange_draftSubject replyId s st)) replyId force)) replyId) =
        Some (subject d) \<and>
      map_option draftBody
        (replyStates (snd (handleGenerateDraft fetch
           (onChange_draftBody replyId b (onChange_draftSubject replyId s st)) replyId force)) replyId) =
        Some (body d))"
  by (auto simp: dispatch_def onChange_draftSubject_def onChange_draftBody_def setReplyState_def
      handleGenerateDraft_def Let_def tone_of_def spread_def no_fields_def string_or_def showMessage_def
      split: option.splits)

theorem C3_edits_stay_on_the_page_witness:
  "generateDraft (net_draft accepting) 2 (tone_of (replyStates example_inbox 2)) True =
     Inr \<lparr> subject = Some ''Re: Pricing details'', body = Some ''Please find our prices.'',
           cached = False \<rparr> \<and>
   map_option draftSubject (replyStates example_inbox 2) = Some (Some ''Re: Demo on Friday'') \<and>
   map_option draftSubject
     (replyStates (snd (handleGenerateDraft (net_draft accepting)
        (onChange_draftBody 2 ''See you then.'' (onChange_draftSubject 2 ''Friday at ten'' example_inbox))
        2 True)) 2) = Some (Some ''Re: Pricing details'') \<and>
   map_option draftBody
     (replyStates (snd (handleGenerateDraft (net_draft accepting)
        (onChange_draftBody 2 ''See you then.'' (onChange_draftSubject 2 ''Friday at ten'' example_inbox))
        2 True)) 2) = Some (Some ''Please find our prices.'')"
proof -
  have g: "generateDraft (net_draft accepting) 2 (tone_of (replyStates example_inbox 2)) True =
     Inr \<lparr> subject = Some ''Re: Pricing details'', body = Some ''Please find our prices.'',
           cached = False \<rparr>"
    by (simp add: generateDraft_def detail_or_json_def accepting_def)
  have e: "map_option draftSubject (replyStates example_inbox 2) = Some (Some ''Re: Demo on Friday'')"
    by (simp add: example_eval)
  show ?thesis
    using g e C3_edits_stay_on_the_page [of accepting 2 "''x''" example_inbox "net_draft accepting"
        "''See you then.''" "''Friday at ten''" True
        "\<lparr> subject = Some ''Re: Pricing details'', body = Some ''Please find our prices.'',
           cached = False \<rparr>"]
    by simp
qed

section \<open>Properties of the backend operations\<close>

lemma find_map_same:
  assumes "\<And>x. P (f x) = P x"
  shows "find P (map f xs) = map_option f (find P xs)"
  using assms by (induction xs) auto

lemmas backend_eval = example_backend_def example_mailbox_def example_env_def example_synced_def
  example_drafted_def perform_def syncReplies_backend_def ingest_def
  has_reply_for_def fresh_reply_id_def generateDraft_backend_def sendDraftReply_backend_def
  generateNextAction_backend_def find_reply_def update_reply_def status_of_def Let_def digit_def

lemma update_reply_provider_calls [simp]:
  "provider_calls (update_reply replyId change db) = provider_calls db"
  by (simp add: update_reply_def)

lemma example_row_found: "find_reply example_drafted 1 = Some example_row"
  by (simp add: backend_eval example_row_def)

text \<open>
  C2. With a draft stored for the reply in the requested tone and \<open>force\<close> not set, the
  stored draft is returned with \<open>cached\<close> set and nothing changes, the count of provider
  calls included. With a stored tone different from the requested one, forced or not, the
  provider is called once and the answer is the provider's draft, not cached, or the
  provider's failure.
\<close>

theorem C2_cache_key_is_reply_and_tone:
  "(find_reply db replyId = Some r \<and> stored_subject r = Some s \<and> stored_body r = Some b \<and>
    stored_tone r = Some t \<longrightarrow>
      generateDraft_backend drafter db replyId t False =
        (Inr \<lparr> subject = Some s, body = Some b, cached = True \<rparr>, db)) \<and>
   (find_reply db replyId = Some r \<and> stored_tone r \<noteq> Some t' \<longrightarrow>
      provider_calls (snd (generateDraft_backend drafter db replyId t' force)) = Suc (provider_calls db) \<and>
      fst (generateDraft_backend drafter db replyId t' force) =
        (case drafter (provider_calls db) r t' of
           None \<Rightarrow> Inl ProviderError
         | Some (s', b') \<Rightarrow> Inr \<lparr> subject = Some s', body = Some b', cached = False \<rparr>))"
  by (auto simp: generateDraft_backend_def Let_def split: option.splits)

theorem C2_cache_key_is_reply_and_tone_witness:
  "find_reply example_drafted 1 = Some example_row \<and>
   stored_tone example_row = Some FRIENDLY \<and> stored_tone example_row \<noteq> Some FORMAL \<and>
   generateDraft_backend (env_drafter example_env) example_drafted 1 FRIENDLY False =
     (Inr \<lparr> subject = Some ''Re: Pricing'', body = Some ''Draft number 0'', cached = True \<rparr>,
      example_drafted) \<and>
   fst (generateDraft_backend (env_drafter example_env) example_drafted 1 FORMAL False) =
     Inr \<lparr> subject = Some ''Re: Pricing'', body = Some ''Draft number 1'', cached = False \<rparr> \<and>
   provider_calls (snd (generateDraft_backend (env_drafter example_env) example_drafted 1 FORMAL False)) =
     Suc (provider_calls example_drafted)"
proof -
  have h1: "find_reply example_drafted 1 = Some example_row" by (rule example_row_found)
  have h2: "stored_subject example_row = Some ''Re: Pricing'' \<and>
            stored_body example_row = Some ''Draft number 0'' \<and>
            stored_tone example_row = Some FRIENDLY \<and> stored_tone example_row \<noteq> Some FORMAL"
    by (simp add: example_row_def)
  have h3: "provider_calls example_drafted = 1" by (simp add: backend_eval)
  have h4: "env_drafter example_env 1 example_row FORMAL = Some (''Re: Pricing'', ''Draft number 1'')"
    by (simp add: example_env_def digit_def)
  show ?thesis
    using h1 h2 h3 h4
      C2_cache_key_is_reply_and_tone [of example_drafted 1 example_row "''Re: Pricing''"
        "''Draft number 0''" FRIENDLY "env_drafter example_env" FORMAL False]
    by simp
qed

lemma sync_no_new:
  assumes "list_all (\<lambda>m. mail_uid m \<le> last_sync db) mailbox"
  shows "syncReplies_backend classifier mailbox db = (db, 0)"
proof -
  have "filter (\<lambda>m. last_sync db < mail_uid m) mailbox = []"
    using assms by (auto simp: list_all_iff filter_empty_conv)
  then show ?thesis by (simp add: syncReplies_backend_def)
qed

lemma fold_max_ge_start: "a \<le> fold max xs (a::nat)"
proof (induction xs arbitrary: a)
  case Nil
  then show ?case by simp
next
  case (Cons x xs)
  have "a \<le> max x a" by simp
  also have "max x a \<le> fold max xs (max x a)" by (rule Cons.IH)
  finally show ?case by simp
qed

lemma fold_max_ge_member: "x \<in> set xs \<Longrightarrow> x \<le> fold max xs (a::nat)"
proof (induction xs arbitrary: a)
  case Nil
  then show ?case by simp
next
  case (Cons y ys)
  show ?case
  proof (cases "x = y")
    case True
    have "x \<le> max y a" using True by simp
    also have "max y a \<le> fold max ys (max y a)" by (rule fold_max_ge_start)
    finally show ?thesis by simp
  next
    case False
    then have "x \<in> set ys" using Cons.prems by simp
    then show ?thesis using Cons.IH [of "max y a"] by simp
  qed
qed

lemma sync_checkpoint:
  "list_all (\<lambda>m. mail_uid m \<le> last_sync (fst (syncReplies_backend classifier mailbox db))) mailbox"
proof -
  let ?new = "filter (\<lambda>m. last_sync db < mail_uid m) mailbox"
  have c: "last_sync (fst (syncReplies_backend classifier mailbox db)) =
           fold max (map mail_uid ?new) (last_sync db)"
    by (simp add: syncReplies_backend_def Let_def split: prod.splits)
  have "mail_uid m \<le> fold max (map mail_uid ?new) (last_sync db)" if "m \<in> set mailbox" for m
  proof (cases "last_sync db < mail_uid m")
    case True
    then have "mail_uid m \<in> set (map mail_uid ?new)" using that by auto
    then show ?thesis by (rule fold_max_ge_member)
  next
    case False
    then show ?thesis using fold_max_ge_start [of "last_sync db" "map mail_uid ?new"] by simp
  qed
  then show ?thesis unfolding c by (simp add: list_all_iff)
qed

lemma sync_twice:
  "syncReplies_backend classifier mailbox (fst (syncReplies_backend classifier mailbox db)) =
     (fst (syncReplies_backend classifier mailbox db), 0)"
  using sync_checkpoint by (rule sync_no_new)

lemma ingest_again:
  "ingest classifier m (fst (ingest classifier m db)) = (fst (ingest classifier m db), 0)"
proof (cases "find (\<lambda>e. message_id e = thread_token m) (outbound_emails db)")
  case None
  then show ?thesis by (simp add: ingest_def)
next
  case (Some e)
  show ?thesis
  proof (cases "has_reply_for db (outbound_id e)")
    case True
    then show ?thesis using Some by (simp add: ingest_def)
  next
    case False
    let ?upd = "\<lambda>x. if outbound_id x = outbound_id e
                     then x\<lparr>is_replied := True, reply_summary := classifier m\<rparr> else x"
    let ?db1 = "fst (ingest classifier m db)"
    have o: "outbound_emails ?db1 = map ?upd (outbound_emails db)"
      using Some False by (simp add: ingest_def Let_def)
    have "find (\<lambda>e. message_id e = thread_token m) (map ?upd (outbound_emails db)) =
          map_option ?upd (find (\<lambda>e. message_id e = thread_token m) (outbound_emails db))"
      by (rule find_map_same) simp
    then have f: "find (\<lambda>e. message_id e = thread_token m) (outbound_emails ?db1) = Some (?upd e)"
      using o Some by simp
    have i: "outbound_id (?upd e) = outbound_id e" by simp
    have "has_reply_for ?db1 (outbound_id e)"
      using Some False by (simp add: ingest_def Let_def has_reply_for_def)
    then show ?thesis using f i by (simp add: ingest_def del: fst_conv)
  qed
qed

lemma ingest_distinct:
  assumes "distinct (map inbound_outbound (inbound_replies db))"
  shows "distinct (map inbound_outbound (inbound_replies (fst (ingest classifier m db))))"
  using assms
  by (auto simp: ingest_def Let_def has_reply_for_def list_ex_iff split: option.splits)

lemma ingest_all_distinct:
  "distinct (map inbound_outbound (inbound_replies db)) \<Longrightarrow>
   distinct (map inbound_outbound (inbound_replies (fst (ingest_all classifier ms db found))))"
proof (induction ms arbitrary: db found)
  case Nil
  then show ?case by simp
next
  case (Cons m ms)
  obtain db' n where step: "ingest classifier m db = (db', n)" by (cases "ingest classifier m db")
  then have "distinct (map inbound_outbound (inbound_replies db'))"
    using ingest_distinct [OF Cons.prems, of classifier m] by simp
  then show ?case using Cons.IH [of db' "found + n"] step by simp
qed

lemma sync_distinct:
  assumes "distinct (map inbound_outbound (inbound_replies db))"
  shows "distinct (map inbound_outbound (inbound_replies (fst (syncReplies_backend classifier mailbox db))))"
proof -
  let ?new = "filter (\<lambda>m. last_sync db < mail_uid m) mailbox"
  obtain db' found where r: "ingest_all classifier ?new db 0 = (db', found)"
    by (cases "ingest_all classifier ?new db 0")
  then have "distinct (map inbound_outbound (inbound_replies db'))"
    using ingest_all_distinct [OF assms, of classifier ?new 0] by simp
  then show ?thesis using r by (simp add: syncReplies_backend_def Let_def)
qed

lemma ingest_new:
  assumes "find (\<lambda>e. message_id e = thread_token m) (outbound_emails db) = Some e"
    and "\<not> has_reply_for db (outbound_id e)"
  shows "snd (ingest classifier m db) = 1 \<and>
     length (filter (\<lambda>r. inbound_outbound r = outbound_id e)
               (inbound_replies (fst (ingest classifier m db)))) = 1 \<and>
     list_all is_replied
       (filter (\<lambda>x. outbound_id x = outbound_id e) (outbound_emails (fst (ingest classifier m db)))) \<and>
     list_all (\<lambda>l. status l = REPLIED)
       (filter (\<lambda>l. row_id l = outbound_lead e) (lead_rows (fst (ingest classifier m db))))"
proof -
  have "filter (\<lambda>r. inbound_outbound r = outbound_id e) (inbound_replies db) = []"
    using assms(2) by (auto simp: has_reply_for_def list_ex_iff filter_empty_conv)
  then show ?thesis using assms
    by (auto simp: ingest_def Let_def list_all_iff)
qed

lemma ingest_known:
  assumes "find (\<lambda>e. message_id e = thread_token m) (outbound_emails db) = Some e"
    and "has_reply_for db (outbound_id e)"
  shows "ingest classifier m db = (db, 0)"
  using assms by (simp add: ingest_def)

text \<open>
  C5. A sync that finds no message newer than the checkpoint stores nothing and returns 0;
  a sync run again on the mailbox of the run before returns 0 and changes nothing; a sync
  never gives one outbound email two replies if none had two. Ingesting a message a second
  time is a no-op, as is ingesting a message whose outbound email already has a reply; the
  first ingestion of a tracked message stores exactly one reply, marks the outbound email
  replied and moves the lead to \<open>REPLIED\<close>.
\<close>

theorem C5_sync_is_idempotent:
  "(list_all (\<lambda>m. mail_uid m \<le> last_sync db) mailbox \<longrightarrow>
      syncReplies_backend classifier mailbox db = (db, 0)) \<and>
   syncReplies_backend classifier mailbox (fst (syncReplies_backend classifier mailbox db)) =
     (fst (syncReplies_backend classifier mailbox db), 0) \<and>
   (distinct (map inbound_outbound (inbound_replies db)) \<longrightarrow>
      distinct (map inbound_outbound
        (inbound_replies (fst (syncReplies_backend classifier mailbox db))))) \<and>
   ingest classifier m (fst (ingest classifier m db)) = (fst (ingest classifier m db), 0) \<and>
   (find (\<lambda>e. message_id e = thread_token m) (outbound_emails db) = Some e \<and>
    has_reply_for db (outbound_id e) \<longrightarrow> ingest classifier m db = (db, 0)) \<and>
   (find (\<lambda>e. message_id e = thread_token m) (outbound_emails db) = Some e \<and>
    \<not> has_reply_for db (outbound_id e) \<longrightarrow>
      snd (ingest classifier m db) = 1 \<and>
      length (filter (\<lambda>r. inbound_outbound r = outbound_id e)
                (inbound_replies (fst (ingest classifier m db)))) = 1 \<and>
      list_all is_replied
        (filter (\<lambda>x. outbound_id x = outbound_id e) (outbound_emails (fst (ingest classifier m db)))) \<and>
      list_all (\<lambda>l. status l = REPLIED)
        (filter (\<lambda>l. row_id l = outbound_lead e) (lead_rows (fst (ingest classifier m db)))))"
  using sync_no_new [of db mailbox classifier] sync_twice [of classifier mailbox db]
    sync_distinct [of db classifier mailbox] ingest_again [of classifier m db]
    ingest_known [of m db e classifier] ingest_new [of m db e classifier]
  by blast

theorem C5_sync_is_idempotent_witness:
  "list_all (\<lambda>m. mail_uid m \<le> last_sync example_synced) example_mailbox \<and>
   syncReplies_backend (env_classifier example_env) example_mailbox example_backend = (example_synced, 1) \<and>
   syncReplies_backend (env_classifier example_env) example_mailbox example_synced = (example_synced, 0) \<and>
   distinct (map inbound_outbound (inbound_replies example_backend)) \<and>
   map inbound_outbound (inbound_replies example_synced) = [10] \<and>
   find (\<lambda>e. message_id e = thread_token example_mail) (outbound_emails example_backend) =
     Some example_outbound \<and>
   \<not> has_reply_for example_backend (outbound_id example_outbound) \<and>
   has_reply_for example_synced (outbound_id example_outbound) \<and>
   snd (ingest (env_classifier example_env) example_mail example_backend) = 1 \<and>
   ingest (env_classifier example_env) example_mail example_synced = (example_synced, 0)"
proof -
  have s: "syncReplies_backend (env_classifier example_env) example_mailbox example_backend =
           (example_synced, 1)"
    by (simp add: backend_eval)
  have h1: "list_all (\<lambda>m. mail_uid m \<le> last_sync example_synced) example_mailbox"
    by (simp add: backend_eval)
  have h2: "distinct (map inbound_outbound (inbound_replies example_backend))"
    by (simp add: example_backend_def)
  have h3: "find (\<lambda>e. message_id e = thread_token example_mail) (outbound_emails example_backend) =
     Some example_outbound"
    by (simp add: example_backend_def example_mail_def example_outbound_def)
  have h4: "\<not> has_reply_for example_backend (outbound_id example_outbound)"
    by (simp add: example_backend_def has_reply_for_def)
  have h5: "find (\<lambda>e. message_id e = thread_token example_mail) (outbound_emails example_synced) =
     Some (example_outbound\<lparr>is_replied := True, reply_summary := env_classifier example_env example_mail\<rparr>)"
    by (simp add: backend_eval example_mail_def example_outbound_def)
  have h6: "has_reply_for example_synced (outbound_id example_outbound)"
    by (simp add: backend_eval example_outbound_def)
  have h7: "map inbound_outbound (inbound_replies example_synced) = [10]"
    by (simp add: backend_eval)
  show ?thesis
    using s h1 h2 h3 h4 h5 h6 h7
      C5_sync_is_idempotent [of example_synced example_mailbox "env_classifier example_env"
        example_mail "example_outbound\<lparr>is_replied := True,
          reply_summary := env_classifier example_env example_mail\<rparr>"]
      C5_sync_is_idempotent [of example_backend example_mailbox "env_classifier example_env"
        example_mail example_outbound]
    by simp
qed

lemma backend_validation:
  "editedSubject = [] \<or> editedBody = [] \<Longrightarrow>
   sendDraftReply_backend transport db replyId editedSubject editedBody files = (Inl ValidationError, db)"
  by (auto simp: sendDraftReply_backend_def)

lemma backend_send_failure:
  assumes "editedSubject \<noteq> []" and "editedBody \<noteq> []"
    and "find_reply db replyId = Some r"
    and "find (\<lambda>e. outbound_id e = inbound_outbound r) (outbound_emails db) = Some e"
    and "\<not> transport (message_id e) editedSubject editedBody files"
  shows "sendDraftReply_backend transport db replyId editedSubject editedBody files = (Inl SendError, db)"
  using assms by (simp add: sendDraftReply_backend_def)

lemma falsy_cases: "falsy None \<and> falsy (Some []) \<and> \<not> falsy (Some (c # cs))"
  by (simp add: falsy_def)

text \<open>
  C6. On the page, a send of a reply whose draft subject or body is empty or missing sends
  no request: the handler shows an error and changes nothing else. On the backend, a send
  with an empty subject or body is a \<open>ValidationError\<close> and leaves the stored data, the
  status included, as it was.
\<close>

theorem C6_empty_draft_is_not_sent:
  "(replyStates st replyId = Some state \<and> (falsy (draftSubject state) \<or> falsy (draftBody state)) \<longrightarrow>
      handleSendDraft fetch_send fetch_replies st replyId =
        Inr ([], st\<lparr>message := Some (''error'', ''Please generate a draft first'')\<rparr>)) \<and>
   falsy None \<and> falsy (Some []) \<and> \<not> falsy (Some (c # cs)) \<and>
   (editedSubject = [] \<or> editedBody = [] \<longrightarrow>
      sendDraftReply_backend transport db replyId editedSubject editedBody files =
        (Inl ValidationError, db))"
  using send_refused [of st replyId state fetch_send fetch_replies]
    backend_validation [of editedSubject editedBody transport db replyId files] falsy_cases [of c cs]
  by blast

theorem C6_empty_draft_is_not_sent_witness:
  "replyStates (onChange_draftSubject 1 [] example_inbox) 1 = Some (example_state\<lparr>draftSubject := Some []\<rparr>) \<and>
   falsy (draftSubject (example_state\<lparr>draftSubject := Some []\<rparr>)) \<and>
   handleSendDraft (net_send accepting) (net_replies accepting) (onChange_draftSubject 1 [] example_inbox) 1 =
     Inr ([], (onChange_draftSubject 1 [] example_inbox)\<lparr>message := Some (''error'', ''Please generate a draft first'')\<rparr>) \<and>
   sendDraftReply_backend (env_transport example_env) example_drafted 1 ''Re: Pricing'' [] [] =
     (Inl ValidationError, example_drafted)"
proof -
  have h1: "replyStates (onChange_draftSubject 1 [] example_inbox) 1 = Some (example_state\<lparr>draftSubject := Some []\<rparr>)"
    by (simp add: example_eval example_state_def)
  have h2: "falsy (draftSubject (example_state\<lparr>draftSubject := Some []\<rparr>))"
    by (simp add: falsy_def)
  show ?thesis
    using h1 h2 C6_empty_draft_is_not_sent [where st = "onChange_draftSubject 1 [] example_inbox"
        and replyId = 1 and state = "example_state\<lparr>draftSubject := Some []\<rparr>"
        and fetch_send = "net_send accepting" and fetch_replies = "net_replies accepting"
        and editedSubject = "''Re: Pricing''" and editedBody = "[]"
        and transport = "env_transport example_env" and db = example_drafted and files = "[]"]
    by simp
qed


end
